theory Spec2Isabelle
  imports Main "HOL-Library.AList"
begin

section \<open>JavaScript strings\<close>

text \<open>
  A JavaScript string is modelled as a \<^typ>\<open>string\<close>: a list of code units, here restricted
  to the range of \<^typ>\<open>char\<close>. The functions below follow the ECMAScript definitions of the
  \<^verbatim>\<open>String.prototype\<close> methods the program calls.
\<close>

abbreviation BSL :: char where "BSL \<equiv> CHR 0x5C"

abbreviation LF :: char where "LF \<equiv> CHR 0x0A"

abbreviation CR :: char where "CR \<equiv> CHR 0x0D"

text \<open>\<^verbatim>\<open>s.startsWith(p)\<close>\<close>

fun startsWith :: "string \<Rightarrow> string \<Rightarrow> bool" where
  "startsWith s [] = True"
| "startsWith [] (p # ps) = False"
| "startsWith (c # cs) (p # ps) = (c = p \<and> startsWith cs ps)"

text \<open>\<^verbatim>\<open>s.includes(sub)\<close>\<close>

fun str_includes :: "string \<Rightarrow> string \<Rightarrow> bool" where
  "str_includes [] sub = (sub = [])"
| "str_includes (c # cs) sub = (startsWith (c # cs) sub \<or> str_includes cs sub)"

text \<open>\<^verbatim>\<open>s.split(sep)[0]\<close> for a non-empty separator: the text before its first occurrence.\<close>

fun split_head :: "string \<Rightarrow> string \<Rightarrow> string" where
  "split_head sep [] = []"
| "split_head sep (c # cs) = (if startsWith (c # cs) sep then [] else c # split_head sep cs)"

text \<open>\<^verbatim>\<open>s.lastIndexOf(c)\<close> for a one-character needle; \<open>-1\<close> when absent.\<close>

fun lastIndexOf_from :: "int \<Rightarrow> int \<Rightarrow> char \<Rightarrow> string \<Rightarrow> int" where
  "lastIndexOf_from i found c [] = found"
| "lastIndexOf_from i found c (d # ds) = lastIndexOf_from (i + 1) (if d = c then i else found) c ds"

definition lastIndexOf :: "string \<Rightarrow> char \<Rightarrow> int" where
  "lastIndexOf s c = lastIndexOf_from 0 (- 1) c s"

text \<open>\<^verbatim>\<open>s.substring(0, n)\<close>: a negative end is clamped to zero, a large one to the length.\<close>

definition substring0 :: "string \<Rightarrow> int \<Rightarrow> string" where
  "substring0 s n = take (nat n) s"

text \<open>Decimal rendering of a number inside a template literal.\<close>

definition digit_char :: "nat \<Rightarrow> char" where
  "digit_char d = char_of (48 + d)"

fun decimal_fuel :: "nat \<Rightarrow> nat \<Rightarrow> string \<Rightarrow> string" where
  "decimal_fuel 0 n acc = acc"
| "decimal_fuel (Suc k) n acc =
     (if n < 10 then digit_char n # acc
      else decimal_fuel k (n div 10) (digit_char (n mod 10) # acc))"

definition decimal :: "nat \<Rightarrow> string" where
  "decimal n = decimal_fuel (Suc n) n []"

section \<open>Regular expressions\<close>

text \<open>
  The program builds regular expressions at run time (\<^verbatim>\<open>new RegExp(...)\<close>) and uses
  regular-expression literals. Both go through one model of the ECMAScript engine
  (non-unicode mode with the web-compatibility grammar, as a \<^verbatim>\<open>RegExp\<close> without flags
  has): a parser from source text to syntax trees and a backtracking matcher that
  lists the ways a tree can match in the engine's priority order.

  The parser covers a fragment: literal characters, \<^verbatim>\<open>.\<close>, identity escapes of
  non-alphanumeric characters, character classes without ranges, the greedy
  quantifiers \<^verbatim>\<open>* + ?\<close>, capturing groups, alternation and the assertions
  \<^verbatim>\<open>^ $\<close>. Source text outside the fragment is reported as \<open>Unsupported\<close>, never
  guessed.
\<close>

datatype rx =
    Chr char
  | AnyCh
  | OneOf bool string
  | Bol
  | Eol
  | Eps
  | Cat rx rx
  | Or rx rx
  | Opt rx
  | Star rx
  | Grp nat rx

datatype 'a parsed = Parsed 'a | SyntaxErr string | Unsupported

text \<open>
  The scanner turns the source into tokens and never fails by itself. Where the text
  cannot be scanned any further it ends the list with a token that says why: \<open>TFail\<close>
  with the engine's message (an escape or a character class cut off by the end of the
  source), or \<open>TOutside\<close> for text outside the fragment. The parser reads the tokens in
  order, so of several errors in one source it reports the one the engine's single
  pass over the source meets first.
\<close>

datatype tok =
  TChr char | TAny | TSet bool string | TStar | TPlus | TOpt | TOpen | TClose | TBar | TBol | TEol
  | TFail string | TOutside

datatype lmode = LNormal | LEsc | LSetStart | LSet bool string | LSetEsc bool string

datatype lstep = Go lmode "tok option" | Stop

definition is_digit :: "char \<Rightarrow> bool" where
  "is_digit c = (let n = (of_char c :: nat) in 48 \<le> n \<and> n \<le> 57)"

definition is_alnum :: "char \<Rightarrow> bool" where
  "is_alnum c =
     (let n = (of_char c :: nat)
      in (48 \<le> n \<and> n \<le> 57) \<or> (65 \<le> n \<and> n \<le> 90) \<or> (97 \<le> n \<and> n \<le> 122))"

text \<open>Whether the text after a \<^verbatim>\<open>{\<close> completes a braced quantifier \<^verbatim>\<open>{n}\<close>, \<^verbatim>\<open>{n,}\<close> or \<^verbatim>\<open>{n,m}\<close>.\<close>

definition braced_quantifier :: "string \<Rightarrow> bool" where
  "braced_quantifier cs =
     (takeWhile is_digit cs \<noteq> [] \<and>
      (case dropWhile is_digit cs of
         [] \<Rightarrow> False
       | d # ds \<Rightarrow>
           if d = CHR ''}'' then True
           else if d = CHR '','' then
             (case dropWhile is_digit ds of [] \<Rightarrow> False | e # es \<Rightarrow> e = CHR ''}'')
           else False))"

definition normal_step :: "char \<Rightarrow> string \<Rightarrow> lstep" where
  "normal_step c cs =
     (if c = BSL then Go LEsc None
      else if c = CHR ''['' then Go LSetStart None
      else if c = CHR ''('' then
        (case cs of [] \<Rightarrow> Go LNormal (Some TOpen)
         | d # ds \<Rightarrow> if d = CHR ''?'' then Stop else Go LNormal (Some TOpen))
      else if c = CHR '')'' then Go LNormal (Some TClose)
      else if c = CHR ''|'' then Go LNormal (Some TBar)
      else if c = CHR ''^'' then Go LNormal (Some TBol)
      else if c = CHR ''$'' then Go LNormal (Some TEol)
      else if c = CHR ''.'' then Go LNormal (Some TAny)
      else if c = CHR ''*'' then Go LNormal (Some TStar)
      else if c = CHR ''+'' then Go LNormal (Some TPlus)
      else if c = CHR ''?'' then Go LNormal (Some TOpt)
      else if c = CHR ''{'' then
        (if braced_quantifier cs then Stop else Go LNormal (Some (TChr c)))
      else Go LNormal (Some (TChr c)))"

definition set_step :: "bool \<Rightarrow> string \<Rightarrow> char \<Rightarrow> lstep" where
  "set_step neg ms c =
     (if c = CHR '']'' then Go LNormal (Some (TSet neg (rev ms)))
      else if c = BSL then Go (LSetEsc neg ms) None
      else if c = CHR ''-'' then Stop
      else Go (LSet neg (c # ms)) None)"

definition lex_step :: "lmode \<Rightarrow> char \<Rightarrow> string \<Rightarrow> lstep" where
  "lex_step m c cs =
     (case m of
        LNormal \<Rightarrow> normal_step c cs
      | LEsc \<Rightarrow> if is_alnum c then Stop else Go LNormal (Some (TChr c))
      | LSetStart \<Rightarrow> if c = CHR ''^'' then Go (LSet True []) None else set_step False [] c
      | LSet neg ms \<Rightarrow> set_step neg ms c
      | LSetEsc neg ms \<Rightarrow> if is_alnum c then Stop else Go (LSet neg (c # ms)) None)"

fun tokens :: "lmode \<Rightarrow> string \<Rightarrow> tok list" where
  "tokens m [] =
     (case m of
        LNormal \<Rightarrow> []
      | LEsc \<Rightarrow> [TFail (BSL # '' at end of pattern'')]
      | LSetStart \<Rightarrow> [TFail ''Unterminated character class'']
      | LSet neg ms \<Rightarrow> [TFail ''Unterminated character class'']
      | LSetEsc neg ms \<Rightarrow> [TFail (BSL # '' at end of pattern'')])"
| "tokens m (c # cs) =
     (case lex_step m c cs of
        Stop \<Rightarrow> [TOutside]
      | Go m' t \<Rightarrow> (case t of None \<Rightarrow> tokens m' cs | Some x \<Rightarrow> x # tokens m' cs))"

datatype ikind = Atom | Quantified | Assertion

type_synonym item = "rx \<times> ikind"

text \<open>A frame is an open group: its capture number, the alternatives already closed by
  \<^verbatim>\<open>|\<close> and the terms of the current alternative, both most recent first.\<close>

type_synonym frame = "nat \<times> rx list \<times> item list"

definition seq_of :: "item list \<Rightarrow> rx" where
  "seq_of items = foldl (\<lambda>acc it. Cat (fst it) acc) Eps items"

definition close_frame :: "rx list \<Rightarrow> item list \<Rightarrow> rx" where
  "close_frame alts cur = foldl (\<lambda>acc a. Or a acc) (seq_of cur) alts"

datatype qkind = QStar | QPlus | QOpt

definition quantify :: "qkind \<Rightarrow> rx \<Rightarrow> rx" where
  "quantify q r = (case q of QStar \<Rightarrow> Star r | QPlus \<Rightarrow> Cat r (Star r) | QOpt \<Rightarrow> Opt r)"

fun parse :: "nat \<Rightarrow> frame list \<Rightarrow> frame \<Rightarrow> tok list \<Rightarrow> rx parsed"
  and parse_quant :: "qkind \<Rightarrow> nat \<Rightarrow> frame list \<Rightarrow> frame \<Rightarrow> tok list \<Rightarrow> rx parsed" where
  "parse n stk (g, alts, cur) [] =
     (if stk = [] then Parsed (close_frame alts cur) else SyntaxErr ''Unterminated group'')"
| "parse n stk (g, alts, cur) (TChr c # ts) = parse n stk (g, alts, (Chr c, Atom) # cur) ts"
| "parse n stk (g, alts, cur) (TAny # ts) = parse n stk (g, alts, (AnyCh, Atom) # cur) ts"
| "parse n stk (g, alts, cur) (TSet neg ms # ts) =
     parse n stk (g, alts, (OneOf neg ms, Atom) # cur) ts"
| "parse n stk (g, alts, cur) (TBol # ts) = parse n stk (g, alts, (Bol, Assertion) # cur) ts"
| "parse n stk (g, alts, cur) (TEol # ts) = parse n stk (g, alts, (Eol, Assertion) # cur) ts"
| "parse n stk (g, alts, cur) (TBar # ts) = parse n stk (g, seq_of cur # alts, []) ts"
| "parse n stk (g, alts, cur) (TOpen # ts) = parse (Suc n) ((g, alts, cur) # stk) (n, [], []) ts"
| "parse n stk (g, alts, cur) (TClose # ts) =
     (case stk of
        [] \<Rightarrow> SyntaxErr (''Unmatched '' @ [CHR 0x27, CHR '')'', CHR 0x27])
      | (pg, palts, pcur) # stk' \<Rightarrow>
          parse n stk' (pg, palts, (Grp g (close_frame alts cur), Atom) # pcur) ts)"
| "parse n stk f (TStar # ts) = parse_quant QStar n stk f ts"
| "parse n stk f (TPlus # ts) = parse_quant QPlus n stk f ts"
| "parse n stk f (TOpt # ts) = parse_quant QOpt n stk f ts"
| "parse n stk f (TFail why # ts) = SyntaxErr why"
| "parse n stk f (TOutside # ts) = Unsupported"
| "parse_quant q n stk (g, alts, cur) ts =
     (case cur of
        [] \<Rightarrow> SyntaxErr ''Nothing to repeat''
      | (r, k) # rest \<Rightarrow>
          (case k of
             Atom \<Rightarrow> parse n stk (g, alts, (quantify q r, Quantified) # rest) ts
           | Assertion \<Rightarrow> SyntaxErr ''Nothing to repeat''
           | Quantified \<Rightarrow>
               (case q of QOpt \<Rightarrow> Unsupported | QStar \<Rightarrow> SyntaxErr ''Nothing to repeat''
                | QPlus \<Rightarrow> SyntaxErr ''Nothing to repeat'')))"

text \<open>\<^verbatim>\<open>new RegExp(src)\<close>: the syntax tree, or the \<^verbatim>\<open>SyntaxError\<close> the constructor throws
  (with the engine's message), or \<open>Unsupported\<close>.\<close>

definition syntax_message :: "string \<Rightarrow> string \<Rightarrow> string" where
  "syntax_message src why = ''Invalid regular expression: /'' @ src @ ''/: '' @ why"

definition RegExp_new :: "string \<Rightarrow> rx parsed" where
  "RegExp_new src =
     (case parse 1 [] (0, [], []) (tokens LNormal src) of
        Parsed r \<Rightarrow> Parsed r
      | SyntaxErr why \<Rightarrow> SyntaxErr (syntax_message src why)
      | Unsupported \<Rightarrow> Unsupported)"

subsection \<open>Matching\<close>

text \<open>A matcher state: the index reached in the whole input, the input still ahead, and
  the text captured by each group that has taken part.\<close>

type_synonym mstate = "nat \<times> string \<times> (nat \<times> string) list"

definition m_idx :: "mstate \<Rightarrow> nat" where "m_idx p = fst p"

definition m_rest :: "mstate \<Rightarrow> string" where "m_rest p = fst (snd p)"

definition m_caps :: "mstate \<Rightarrow> (nat \<times> string) list" where "m_caps p = snd (snd p)"

text \<open>\<^verbatim>\<open>.\<close> matches any code unit but a line terminator (the dotAll flag is never set).\<close>

definition is_line_terminator :: "char \<Rightarrow> bool" where
  "is_line_terminator c = (c = LF \<or> c = CR)"

definition eat :: "(char \<Rightarrow> bool) \<Rightarrow> mstate \<Rightarrow> mstate list" where
  "eat ok p =
     (case m_rest p of
        [] \<Rightarrow> []
      | d # ds \<Rightarrow> if ok d then [(Suc (m_idx p), ds, m_caps p)] else [])"

fun groups_of :: "rx \<Rightarrow> nat list" where
  "groups_of (Cat a b) = groups_of a @ groups_of b"
| "groups_of (Or a b) = groups_of a @ groups_of b"
| "groups_of (Opt a) = groups_of a"
| "groups_of (Star a) = groups_of a"
| "groups_of (Grp n a) = n # groups_of a"
| "groups_of r = []"

definition forget :: "nat list \<Rightarrow> mstate \<Rightarrow> mstate" where
  "forget gs p = (m_idx p, m_rest p, filter (\<lambda>kv. fst kv \<notin> set gs) (m_caps p))"

definition capture :: "nat \<Rightarrow> mstate \<Rightarrow> mstate \<Rightarrow> mstate" where
  "capture n p q =
     (m_idx q, m_rest q, AList.update n (take (m_idx q - m_idx p) (m_rest p)) (m_caps q))"

text \<open>
  \<open>run r p\<close> lists the states in which \<open>r\<close> can end when started in \<open>p\<close>, first choice
  first: a greedy quantifier tries one more iteration before giving up, an iteration
  that consumes nothing is rejected, and the captures of a quantified group are reset
  when an iteration starts.
\<close>

function run :: "rx \<Rightarrow> mstate \<Rightarrow> mstate list" where
  "run (Chr c) p = eat (\<lambda>d. d = c) p"
| "run AnyCh p = eat (\<lambda>d. \<not> is_line_terminator d) p"
| "run (OneOf neg ms) p = eat (\<lambda>d. (d \<in> set ms) \<noteq> neg) p"
| "run Bol p = (if m_idx p = 0 then [p] else [])"
| "run Eol p = (if m_rest p = [] then [p] else [])"
| "run Eps p = [p]"
| "run (Cat a b) p = concat (map (run b) (run a p))"
| "run (Or a b) p = run a p @ run b p"
| "run (Opt a) p =
     filter (\<lambda>q. length (m_rest q) < length (m_rest p)) (run a (forget (groups_of a) p)) @ [p]"
| "run (Star a) p =
     concat (map (run (Star a))
       (filter (\<lambda>q. length (m_rest q) < length (m_rest p)) (run a (forget (groups_of a) p))))
     @ [p]"
| "run (Grp n a) p = map (capture n p) (run a p)"
  by pat_completeness auto
termination
  by (relation "measures [\<lambda>(r, p). size r, \<lambda>(r, p). length (m_rest p)]") auto

text \<open>The first match of \<open>r\<close> at or after the current position: where it starts and the
  state in which it ends.\<close>

fun search :: "rx \<Rightarrow> nat \<Rightarrow> string \<Rightarrow> (nat \<times> mstate) option" where
  "search r i [] = (case run r (i, [], []) of [] \<Rightarrow> None | q # qs \<Rightarrow> Some (i, q))"
| "search r i (c # cs) =
     (case run r (i, c # cs, []) of [] \<Rightarrow> search r (Suc i) cs | q # qs \<Rightarrow> Some (i, q))"

text \<open>\<^verbatim>\<open>re.test(s)\<close> for a regular expression without the global flag.\<close>

definition RegExp_test :: "rx \<Rightarrow> string \<Rightarrow> bool" where
  "RegExp_test r s = (search r 0 s \<noteq> None)"

text \<open>\<^verbatim>\<open>s.match(re)\<close> without the global flag: the captures of the first match.\<close>

definition String_match :: "string \<Rightarrow> rx \<Rightarrow> (nat \<times> string) list option" where
  "String_match s r = (case search r 0 s of None \<Rightarrow> None | Some (b, q) \<Rightarrow> Some (m_caps q))"

text \<open>\<^verbatim>\<open>s.replace(re, repl)\<close> without the global flag, for a replacement text free of
  \<^verbatim>\<open>$\<close> (every replacement in the program is).\<close>

definition String_replace :: "string \<Rightarrow> rx \<Rightarrow> string \<Rightarrow> string" where
  "String_replace s r repl =
     (case search r 0 s of
        None \<Rightarrow> s
      | Some (b, q) \<Rightarrow> take b s @ repl @ m_rest q)"

text \<open>\<^verbatim>\<open>s.replace(re, repl)\<close> with the global flag: matches are taken left to right without
  overlap; after an empty match the scan moves on by one code unit. \<open>skip\<close> counts the
  code units of the last match still to be passed over.\<close>

fun replace_scan :: "rx \<Rightarrow> string \<Rightarrow> nat \<Rightarrow> nat \<Rightarrow> string \<Rightarrow> string" where
  "replace_scan r repl i skip [] =
     (if skip = 0 \<and> run r (i, [], []) \<noteq> [] then repl else [])"
| "replace_scan r repl i skip (c # cs) =
     (if 0 < skip then replace_scan r repl (Suc i) (skip - 1) cs
      else
        (case run r (i, c # cs, []) of
           [] \<Rightarrow> c # replace_scan r repl (Suc i) 0 cs
         | q # qs \<Rightarrow>
             (let n = m_idx q - i
              in if n = 0 then repl @ c # replace_scan r repl (Suc i) 0 cs
                 else repl @ replace_scan r repl (Suc i) (n - 1) cs)))"

definition String_replace_all :: "string \<Rightarrow> rx \<Rightarrow> string \<Rightarrow> string" where
  "String_replace_all s r repl = replace_scan r repl 0 0 s"

text \<open>The syntax tree of a regular-expression literal that matches a fixed text.\<close>

definition lit :: "string \<Rightarrow> rx" where
  "lit s = foldr (\<lambda>c r. Cat (Chr c) r) s Eps"

definition plus :: "rx \<Rightarrow> rx" where
  "plus r = Cat r (Star r)"

section \<open>Exceptions and results\<close>

text \<open>
  A thrown JavaScript value: an \<^verbatim>\<open>Error\<close> (or one of its subclasses) with its message, or
  a value that is no \<^verbatim>\<open>Error\<close> at all. A computation returns, throws, or falls outside
  what the model determines (\<open>Gap\<close>: a regular expression or path outside the
  modelled fragment, a server answer of an undeclared shape, or a traversal deeper
  than the recursion budget).
\<close>

datatype exn = Error string | SyntaxError string | TypeError string | NonError

datatype 'a outcome = Ret 'a | Throw exn | Gap

text \<open>\<^verbatim>\<open>error instanceof Error ? error.message : 'Unknown error'\<close>\<close>

definition error_text :: "exn \<Rightarrow> string" where
  "error_text e =
     (case e of Error m \<Rightarrow> m | SyntaxError m \<Rightarrow> m | TypeError m \<Rightarrow> m
      | NonError \<Rightarrow> ''Unknown error'')"

section \<open>types.ts\<close>

datatype SyncTarget = Global | Workspace

datatype SyncDirection = Pull | Push

datatype TargetSetting = TargetGlobal | TargetWorkspace | TargetAsk

datatype ConflictPolicy = PolicyAsk | PolicyKeepLocal | PolicyUseRemote

datatype Resolution = KeepLocal | UseRemote | Skip

record SyncConfig =
  repoUrl :: string
  branch :: string
  repoPath :: string
  defaultSyncTarget :: TargetSetting
  autoSyncEnabled :: bool
  autoSyncIntervalMinutes :: nat
  syncOnStartup :: bool
  syncOnNewWorkspace :: bool
  githubToken :: string
  conflictResolution :: ConflictPolicy
  filesToSync :: "string list"

record RepoInfo =
  owner :: string
  repo :: string

text \<open>The \<^verbatim>\<open>type\<close> of a listing entry; the server also reports kinds other than the two
  the interface declares (symbolic links, submodules).\<close>

datatype EntryType = TypeFile | TypeDir | TypeOther

record GitHubFile =
  gf_name :: string
  gf_path :: string
  gf_sha :: string
  gf_size :: nat
  gf_type :: EntryType
  gf_download_url :: "string option"

record GitHubContent =
  gc_path :: string
  gc_content :: string
  gc_sha :: "string option"
  gc_encoding :: "string option"

record ConflictInfo =
  ci_path :: string
  ci_localContent :: string
  ci_remoteContent :: string
  ci_resolution :: Resolution

record SyncResult =
  success :: bool
  filesProcessed :: nat
  errors :: "string list"
  conflicts :: "ConflictInfo list"

record SyncState =
  lastSyncedAt :: "nat option"
  lastSyncTarget :: "SyncTarget option"
  lastSyncDirection :: "SyncDirection option"
  lastSyncFiles :: "string list"
  lastError :: "string option"

text \<open>\<^verbatim>\<open>Partial<SyncState>\<close>: each property is present (\<open>Some\<close>) or absent.\<close>

record PartialSyncState =
  set_lastSyncedAt :: "nat option option"
  set_lastSyncTarget :: "SyncTarget option option"
  set_lastSyncDirection :: "SyncDirection option option"
  set_lastSyncFiles :: "string list option"
  set_lastError :: "string option option"

section \<open>config.ts\<close>

text \<open>The settings of the \<^verbatim>\<open>cursorSync\<close> section as the editor holds them: a key the user has
  not set is \<open>None\<close>, and \<^verbatim>\<open>config.get(key, default)\<close> then yields the default.\<close>

record Settings =
  s_repoUrl :: "string option"
  s_branch :: "string option"
  s_repoPath :: "string option"
  s_defaultSyncTarget :: "TargetSetting option"
  s_autoSyncEnabled :: "bool option"
  s_autoSyncIntervalMinutes :: "nat option"
  s_syncOnStartup :: "bool option"
  s_syncOnNewWorkspace :: "bool option"
  s_githubToken :: "string option"
  s_conflictResolution :: "ConflictPolicy option"
  s_filesToSync :: "string list option"

text \<open>The process environment variables the program reads.\<close>

record ProcessEnv =
  env_HOME :: "string option"
  env_USERPROFILE :: "string option"
  env_CURSOR_SYNC_GITHUB_TOKEN :: "string option"

definition config_get :: "'a option \<Rightarrow> 'a \<Rightarrow> 'a" where
  "config_get v d = (case v of None \<Rightarrow> d | Some x \<Rightarrow> x)"

text \<open>\<^verbatim>\<open>a || b\<close> on an optional string: an absent or empty \<open>a\<close> is falsy.\<close>

definition or_else :: "string option \<Rightarrow> string \<Rightarrow> string" where
  "or_else a b = (case a of None \<Rightarrow> b | Some x \<Rightarrow> if x = [] then b else x)"

definition getGitHubToken :: "Settings \<Rightarrow> ProcessEnv \<Rightarrow> string" where
  "getGitHubToken config env =
     (let configToken = config_get (s_githubToken config) []
      in if configToken \<noteq> [] then configToken
         else or_else (env_CURSOR_SYNC_GITHUB_TOKEN env) [])"

definition getConfig :: "Settings \<Rightarrow> ProcessEnv \<Rightarrow> SyncConfig" where
  "getConfig config env =
     \<lparr> repoUrl = config_get (s_repoUrl config) [],
       branch = config_get (s_branch config) ''main'',
       repoPath = config_get (s_repoPath config) ''cursor'',
       defaultSyncTarget = config_get (s_defaultSyncTarget config) TargetAsk,
       autoSyncEnabled = config_get (s_autoSyncEnabled config) False,
       autoSyncIntervalMinutes = config_get (s_autoSyncIntervalMinutes config) 60,
       syncOnStartup = config_get (s_syncOnStartup config) False,
       syncOnNewWorkspace = config_get (s_syncOnNewWorkspace config) True,
       githubToken = getGitHubToken config env,
       conflictResolution = config_get (s_conflictResolution config) PolicyAsk,
       filesToSync = config_get (s_filesToSync config)
         [''.cursorrules'', ''rules/**'', ''mcp.json'', ''prompts/**''] \<rparr>"

text \<open>The three shapes \<^verbatim>\<open>parseRepoUrl\<close> tries, as syntax trees of its literals
  \<^verbatim>\<open>/^([^\/]+)\/([^\/\.]+)$/\<close>, \<^verbatim>\<open>/github\.com\/([^\/]+)\/([^\/\.]+)/\<close> and
  \<^verbatim>\<open>/github\.com:([^\/]+)\/([^\/\.]+)/\<close>.\<close>

definition repo_shorthand :: rx where
  "repo_shorthand =
     Cat Bol (Cat (Grp 1 (plus (OneOf True ''/'')))
       (Cat (Chr CHR ''/'') (Cat (Grp 2 (plus (OneOf True ''/.''))) Eol)))"

definition repo_web :: rx where
  "repo_web =
     Cat (lit ''github.com/'') (Cat (Grp 1 (plus (OneOf True ''/'')))
       (Cat (Chr CHR ''/'') (Grp 2 (plus (OneOf True ''/.'')))))"

definition repo_ssh :: rx where
  "repo_ssh =
     Cat (lit ''github.com:'') (Cat (Grp 1 (plus (OneOf True ''/'')))
       (Cat (Chr CHR ''/'') (Grp 2 (plus (OneOf True ''/.'')))))"

text \<open>\<^verbatim>\<open>/\.git$/\<close>\<close>

definition dot_git_suffix :: rx where
  "dot_git_suffix = Cat (lit ''.git'') Eol"

text \<open>The loop of \<^verbatim>\<open>parseRepoUrl\<close> over its patterns. Reading a capture that took no part
  in the match gives \<^verbatim>\<open>undefined\<close>, on which \<^verbatim>\<open>.replace\<close> throws a \<^verbatim>\<open>TypeError\<close>.\<close>

fun parseRepoUrl_loop :: "rx list \<Rightarrow> string \<Rightarrow> RepoInfo option outcome" where
  "parseRepoUrl_loop [] url = Ret None"
| "parseRepoUrl_loop (pattern # patterns) url =
     (case String_match url pattern of
        None \<Rightarrow> parseRepoUrl_loop patterns url
      | Some m \<Rightarrow>
          (case map_of m 2 of
             None \<Rightarrow> Throw (TypeError ''Cannot read properties of undefined'')
           | Some m2 \<Rightarrow>
               (case map_of m 1 of
                  None \<Rightarrow> Gap
                | Some m1 \<Rightarrow>
                    Ret (Some \<lparr> owner = m1, repo = String_replace m2 dot_git_suffix [] \<rparr>))))"

definition parseRepoUrl :: "string \<Rightarrow> RepoInfo option outcome" where
  "parseRepoUrl url =
     (if url = [] then Ret None
      else parseRepoUrl_loop [repo_shorthand, repo_web, repo_ssh] url)"


definition getDefaultState :: SyncState where
  "getDefaultState =
     \<lparr> lastSyncedAt = None, lastSyncTarget = None, lastSyncDirection = None,
       lastSyncFiles = [], lastError = None \<rparr>"

text \<open>The module variable \<^verbatim>\<open>globalState\<close>: \<open>None\<close> before \<^verbatim>\<open>initStateStorage\<close> has run,
  otherwise the memento, which holds a record under the state key or nothing yet.\<close>

type_synonym Memento = "SyncState option option"

definition getSyncState :: "Memento \<Rightarrow> SyncState" where
  "getSyncState globalState =
     (case globalState of
        None \<Rightarrow> getDefaultState
      | Some stored \<Rightarrow> config_get stored getDefaultState)"

text \<open>\<^verbatim>\<open>{ ...current, ...partial }\<close>\<close>

definition spread :: "SyncState \<Rightarrow> PartialSyncState \<Rightarrow> SyncState" where
  "spread current partial =
     \<lparr> lastSyncedAt = config_get (set_lastSyncedAt partial) (lastSyncedAt current),
       lastSyncTarget = config_get (set_lastSyncTarget partial) (lastSyncTarget current),
       lastSyncDirection = config_get (set_lastSyncDirection partial) (lastSyncDirection current),
       lastSyncFiles = config_get (set_lastSyncFiles partial) (lastSyncFiles current),
       lastError = config_get (set_lastError partial) (lastError current) \<rparr>"

text \<open>\<^verbatim>\<open>updateSyncState\<close> awaits the memento, which may reject; it follows the host below.\<close>

section \<open>Pattern matching\<close>

text \<open>\<^verbatim>\<open>/^\.?cursor\/?/\<close>, with which both traversals normalise the configured patterns.\<close>

definition cursor_prefix :: rx where
  "cursor_prefix = Cat Bol (Cat (Opt (Chr CHR ''.'')) (Cat (lit ''cursor'') (Opt (Chr CHR ''/''))))"

definition normalizePatterns :: "string list \<Rightarrow> string list" where
  "normalizePatterns patterns = map (\<lambda>p. String_replace p cursor_prefix []) patterns"

text \<open>The chain of replacements that turns a glob into the source of a regular
  expression (the same in both classes).\<close>

definition glob_source :: "string \<Rightarrow> string" where
  "glob_source pattern =
     (let s1 = String_replace_all pattern (lit ''.'') [BSL, CHR ''.''];
          s2 = String_replace_all s1 (lit ''**'') ''{{GLOBSTAR}}'';
          s3 = String_replace_all s2 (lit ''*'') ''[^/]*'';
          s4 = String_replace_all s3 (lit ''?'') ''.''
      in String_replace_all s4 (lit ''{{GLOBSTAR}}'') ''.*'')"

definition GitHubClient_matchPattern :: "string \<Rightarrow> string \<Rightarrow> bool outcome" where
  "GitHubClient_matchPattern path pattern =
     (if pattern = path then Ret True
      else
        (let regexStr = glob_source pattern
         in case RegExp_new (''^'' @ regexStr @ ''$'') of
              Parsed regex \<Rightarrow> Ret (RegExp_test regex path)
            | SyntaxErr m \<Rightarrow> Throw (SyntaxError m)
            | Unsupported \<Rightarrow> Gap))"

fun matchesPatterns :: "string \<Rightarrow> string list \<Rightarrow> bool outcome" where
  "matchesPatterns path [] = Ret False"
| "matchesPatterns path (pattern # patterns) =
     (case GitHubClient_matchPattern path pattern of
        Ret b \<Rightarrow> if b then Ret True else matchesPatterns path patterns
      | Throw e \<Rightarrow> Throw e
      | Gap \<Rightarrow> Gap)"

definition SyncManager_matchPattern :: "string \<Rightarrow> string \<Rightarrow> bool outcome" where
  "SyncManager_matchPattern filePath pattern =
     (if pattern = filePath then Ret True
      else
        (let regexStr = glob_source pattern
         in case RegExp_new (''^'' @ regexStr @ ''$'') of
              Parsed regex \<Rightarrow> Ret (RegExp_test regex filePath)
            | SyntaxErr m \<Rightarrow> Throw (SyntaxError m)
            | Unsupported \<Rightarrow> Gap))"

fun matchesAnyPattern :: "string \<Rightarrow> string list \<Rightarrow> bool outcome" where
  "matchesAnyPattern filePath [] = Ret False"
| "matchesAnyPattern filePath (pattern # patterns) =
     (case SyncManager_matchPattern filePath pattern of
        Ret b \<Rightarrow> if b then Ret True else matchesAnyPattern filePath patterns
      | Throw e \<Rightarrow> Throw e
      | Gap \<Rightarrow> Gap)"

text \<open>\<^verbatim>\<open>/\/$/\<close>\<close>

definition trailing_slash :: rx where
  "trailing_slash = Cat (Chr CHR ''/'') Eol"

fun shouldProcessDirectory :: "string \<Rightarrow> string list \<Rightarrow> bool" where
  "shouldProcessDirectory path [] = False"
| "shouldProcessDirectory path (pattern # patterns) =
     (if str_includes pattern ''**'' then
        (let base = String_replace (split_head ''**'' pattern) trailing_slash []
         in if base = [] \<or> startsWith path base \<or> startsWith base path then True
            else shouldProcessDirectory path patterns)
      else if str_includes pattern ''/'' then
        (let dir = substring0 pattern (lastIndexOf pattern CHR ''/'')
         in if path = dir \<or> startsWith path (dir @ ''/'') \<or> startsWith dir (path @ ''/'')
            then True
            else shouldProcessDirectory path patterns)
      else shouldProcessDirectory path patterns)"

section \<open>The path module\<close>

text \<open>
  \<^verbatim>\<open>path.join\<close>, \<^verbatim>\<open>path.dirname\<close> and \<^verbatim>\<open>path.relative\<close> of the Node.js run time, which the
  program calls and which differ by platform. The POSIX variant is modelled for every
  input, after the algorithms of the run time (segments that are empty or \<^verbatim>\<open>.\<close> are
  dropped, \<^verbatim>\<open>..\<close> removes the segment before it). The Windows variant is modelled for
  paths that begin with a drive letter and a separator, made of characters below 128;
  on any other path its functions give \<open>None\<close>.
\<close>

datatype platform = Posix | Win32

fun split_on :: "(char \<Rightarrow> bool) \<Rightarrow> string \<Rightarrow> string list" where
  "split_on sep [] = [[]]"
| "split_on sep (c # cs) =
     (if sep c then [] # split_on sep cs
      else (case split_on sep cs of [] \<Rightarrow> [[c]] | seg # segs \<Rightarrow> (c # seg) # segs))"

fun join_with :: "string \<Rightarrow> string list \<Rightarrow> string" where
  "join_with sep [] = []"
| "join_with sep [x] = x"
| "join_with sep (x # y # zs) = x @ sep @ join_with sep (y # zs)"

text \<open>One step of \<^verbatim>\<open>normalizeString\<close>; the segments kept so far are held last first.\<close>

definition norm_step :: "bool \<Rightarrow> string list \<Rightarrow> string \<Rightarrow> string list" where
  "norm_step allowAboveRoot res seg =
     (if seg = [] \<or> seg = ''.'' then res
      else if seg = ''..'' then
        (case res of
           [] \<Rightarrow> if allowAboveRoot then [''..''] else []
         | lastSeg # below \<Rightarrow>
             if lastSeg = ''..'' then (if allowAboveRoot then ''..'' # res else res) else below)
      else seg # res)"

definition normalizeString :: "string list \<Rightarrow> bool \<Rightarrow> string list" where
  "normalizeString segs allowAboveRoot = rev (foldl (norm_step allowAboveRoot) [] segs)"

definition is_slash :: "char \<Rightarrow> bool" where
  "is_slash c = (c = CHR ''/'')"

definition posix_normalize :: "string \<Rightarrow> string" where
  "posix_normalize path =
     (if path = [] then ''.''
      else
        (let isAbsolute = (hd path = CHR ''/'');
             trailingSeparator = (last path = CHR ''/'');
             p = join_with ''/'' (normalizeString (split_on is_slash path) (\<not> isAbsolute))
         in if p = [] then (if isAbsolute then ''/'' else if trailingSeparator then ''./'' else ''.'')
            else (if isAbsolute then ''/'' else []) @ p @ (if trailingSeparator then ''/'' else [])))"

definition posix_join :: "string list \<Rightarrow> string" where
  "posix_join args =
     (let parts = filter (\<lambda>a. a \<noteq> []) args
      in if parts = [] then ''.'' else posix_normalize (join_with ''/'' parts))"

definition posix_dirname :: "string \<Rightarrow> string" where
  "posix_dirname path =
     (case path of
        [] \<Rightarrow> ''.''
      | c # t \<Rightarrow>
          (case dropWhile (\<lambda>d. \<not> is_slash d) (dropWhile is_slash (rev t)) of
             [] \<Rightarrow> if is_slash c then ''/'' else ''.''
           | s # r \<Rightarrow> if is_slash c \<and> r = [] then ''//'' else c # rev r))"

text \<open>\<^verbatim>\<open>path.resolve\<close> of one path against the working directory, as its segments.\<close>

definition posix_resolve :: "string \<Rightarrow> string \<Rightarrow> string list" where
  "posix_resolve cwd p =
     normalizeString (split_on is_slash (if startsWith p ''/'' then p else cwd @ ''/'' @ p)) False"

fun common_prefix :: "string list \<Rightarrow> string list \<Rightarrow> nat" where
  "common_prefix (x # xs) (y # ys) = (if x = y then Suc (common_prefix xs ys) else 0)"
| "common_prefix xs ys = 0"

definition posix_relative :: "string \<Rightarrow> string \<Rightarrow> string \<Rightarrow> string" where
  "posix_relative cwd from to =
     (if from = to then []
      else
        (let f = posix_resolve cwd from;
             t = posix_resolve cwd to;
             k = common_prefix f t
         in join_with ''/'' (replicate (length f - k) ''..'' @ drop k t)))"

definition is_sep :: "char \<Rightarrow> bool" where
  "is_sep c = (c = CHR ''/'' \<or> c = BSL)"

definition is_letter :: "char \<Rightarrow> bool" where
  "is_letter c =
     (let n = (of_char c :: nat) in (65 \<le> n \<and> n \<le> 90) \<or> (97 \<le> n \<and> n \<le> 122))"

definition to_lower :: "char \<Rightarrow> char" where
  "to_lower c =
     (let n = (of_char c :: nat) in if 65 \<le> n \<and> n \<le> 90 then char_of (n + 32) else c)"

text \<open>A path \<^verbatim>\<open>X:\...\<close> split into its device and the segments after the root.\<close>

definition win32_parse :: "string \<Rightarrow> (string \<times> string list) option" where
  "win32_parse path =
     (case path of
        d # c # s # tail \<Rightarrow>
          if is_letter d \<and> c = CHR '':'' \<and> is_sep s \<and> list_all (\<lambda>x. of_char x < (128::nat)) path
          then Some ([d, c], normalizeString (split_on is_sep tail) False)
          else None
      | _ \<Rightarrow> None)"

definition win32_normalize :: "string \<Rightarrow> string option" where
  "win32_normalize path =
     (case win32_parse path of
        None \<Rightarrow> None
      | Some (device, segs) \<Rightarrow>
          (let tail = join_with [BSL] segs
           in Some (device @ [BSL] @ tail @ (if tail \<noteq> [] \<and> is_sep (last path) then [BSL] else []))))"

definition win32_join :: "string list \<Rightarrow> string option" where
  "win32_join args =
     (let parts = filter (\<lambda>a. a \<noteq> []) args
      in if parts = [] then Some ''.'' else win32_normalize (join_with [BSL] parts))"

definition win32_dirname :: "string \<Rightarrow> string option" where
  "win32_dirname path =
     (case win32_parse path of
        None \<Rightarrow> None
      | Some parsed \<Rightarrow>
          (case dropWhile (\<lambda>d. \<not> is_sep d) (dropWhile is_sep (rev (drop 3 path))) of
             [] \<Rightarrow> Some (take 3 path)
           | s # r \<Rightarrow> Some (take 3 path @ rev r)))"

text \<open>\<^verbatim>\<open>path.win32.relative\<close> resolves both paths first; when they lie on different drives it
  returns the resolved target, which carries no trailing separator.\<close>

definition win32_relative :: "string \<Rightarrow> string \<Rightarrow> string option" where
  "win32_relative from to =
     (if from = to then Some []
      else
        (case (win32_parse from, win32_parse to) of
           (Some (fd, f), Some (td, t)) \<Rightarrow>
             if map to_lower fd \<noteq> map to_lower td then Some (td @ [BSL] @ join_with [BSL] t)
             else
               (let k = common_prefix (map (map to_lower) f) (map (map to_lower) t)
                in Some (join_with [BSL] (replicate (length f - k) ''..'' @ drop k t)))
         | _ \<Rightarrow> None))"

definition path_join :: "platform \<Rightarrow> string list \<Rightarrow> string option" where
  "path_join pf args = (case pf of Posix \<Rightarrow> Some (posix_join args) | Win32 \<Rightarrow> win32_join args)"

definition path_dirname :: "platform \<Rightarrow> string \<Rightarrow> string option" where
  "path_dirname pf p = (case pf of Posix \<Rightarrow> Some (posix_dirname p) | Win32 \<Rightarrow> win32_dirname p)"

definition path_relative :: "platform \<Rightarrow> string \<Rightarrow> string \<Rightarrow> string \<Rightarrow> string option" where
  "path_relative pf cwd from to =
     (case pf of Posix \<Rightarrow> Some (posix_relative cwd from to) | Win32 \<Rightarrow> win32_relative from to)"

section \<open>Path mapping (sync.ts)\<close>

definition mapToLocalPath :: "platform \<Rightarrow> string \<Rightarrow> string \<Rightarrow> string option" where
  "mapToLocalPath pf remotePath targetDir =
     (if remotePath = ''.cursorrules'' then
        (case path_dirname pf targetDir of
           None \<Rightarrow> None
         | Some parent \<Rightarrow> path_join pf [parent, ''.cursorrules''])
      else path_join pf [targetDir, remotePath])"

definition mapToRemotePath :: "platform \<Rightarrow> string \<Rightarrow> string \<Rightarrow> string \<Rightarrow> string option" where
  "mapToRemotePath pf cwd localPath targetDir =
     (case path_dirname pf targetDir of
        None \<Rightarrow> None
      | Some parent \<Rightarrow>
          (case path_join pf [parent, ''.cursorrules''] of
             None \<Rightarrow> None
           | Some rules \<Rightarrow>
               if localPath = rules then Some ''.cursorrules''
               else path_relative pf cwd targetDir localPath))"

text \<open>A path segment as a repository or a file system has it: not empty, not \<^verbatim>\<open>.\<close> or
  \<^verbatim>\<open>..\<close>, and free of the separator.\<close>

definition plain_segment :: "string \<Rightarrow> bool" where
  "plain_segment seg = (seg \<noteq> [] \<and> seg \<noteq> ''.'' \<and> seg \<noteq> ''..'' \<and> \<not> list_ex is_slash seg)"

section \<open>The host: file system, network, editor\<close>

text \<open>
  Everything outside the program is a parameter. \<open>'w\<close> is the state of the outside
  world (the local files, the remote repository, the user); the host's operations
  read and change it and may throw. Nothing is assumed about them, so a theorem about
  the program holds for every behaviour of the file system, the server and the user.
\<close>

record ApiFile =
  af_name :: string
  af_path :: string
  af_sha :: string
  af_size :: nat
  af_type :: EntryType
  af_download_url :: "string option"
  af_content :: "string option"
  af_encoding :: "string option"

text \<open>A decoded JSON body: a listing, one file object, or an object of another shape
  with its \<^verbatim>\<open>message\<close> property if it has one.\<close>

datatype Json = JArray "ApiFile list" | JObject ApiFile | JOther "string option"

record PutBody =
  pb_message :: string
  pb_content :: string
  pb_branch :: string
  pb_sha :: "string option"

record Request =
  req_method :: string
  req_url :: string
  req_headers :: "(string \<times> string) list"
  req_body :: "PutBody option"

record Response =
  status :: nat
  statusText :: string
  body_text :: string
  body_json :: "exn + Json"

definition response_ok :: "Response \<Rightarrow> bool" where
  "response_ok r = (200 \<le> status r \<and> status r \<le> 299)"

datatype DirentKind = IsFile | IsDirectory | IsOther

record Dirent =
  d_name :: string
  d_kind :: DirentKind

record 'w Host =
  host_platform :: platform
  host_cwd :: string
  host_settings :: Settings
  host_env :: ProcessEnv
  workspaceFolder :: "string option"
  date_now :: "'w \<Rightarrow> nat"
  fs_mkdir :: "string \<Rightarrow> 'w \<Rightarrow> (exn + unit) \<times> 'w"
  fs_existsSync :: "string \<Rightarrow> 'w \<Rightarrow> bool"
  fs_readFile :: "string \<Rightarrow> 'w \<Rightarrow> (exn + string) \<times> 'w"
  fs_writeFile :: "string \<Rightarrow> string \<Rightarrow> 'w \<Rightarrow> (exn + unit) \<times> 'w"
  fs_readdir :: "string \<Rightarrow> 'w \<Rightarrow> (exn + Dirent list) \<times> 'w"
  net_fetch :: "Request \<Rightarrow> 'w \<Rightarrow> (exn + Response) \<times> 'w"
  showWarningMessage :: "string \<Rightarrow> string list \<Rightarrow> 'w \<Rightarrow> (exn + string option) \<times> 'w"
  showInformationMessage :: "string \<Rightarrow> string list \<Rightarrow> 'w \<Rightarrow> (exn + string option) \<times> 'w"
  vscode_diff :: "string \<Rightarrow> string \<Rightarrow> string \<Rightarrow> 'w \<Rightarrow> (exn + unit) \<times> 'w"
  memento_update :: "SyncState \<Rightarrow> 'w \<Rightarrow> exn + unit"
  base64_encode :: "string \<Rightarrow> string"
  base64_decode :: "string \<Rightarrow> string"

text \<open>The state a run threads through: the outside world, the requests sent so far
  (oldest first) and the module variable \<^verbatim>\<open>globalState\<close> of config.ts.\<close>

record 'w Process =
  world :: 'w
  requests :: "Request list"
  globalState :: Memento

type_synonym ('a, 's) action = "'s \<Rightarrow> 'a outcome \<times> 's"

definition ret :: "'a \<Rightarrow> ('a, 's) action" where
  "ret x s = (Ret x, s)"

definition throw :: "exn \<Rightarrow> ('a, 's) action" where
  "throw e s = (Throw e, s)"

definition gap :: "('a, 's) action" where
  "gap s = (Gap, s)"

definition bind :: "('a, 's) action \<Rightarrow> ('a \<Rightarrow> ('b, 's) action) \<Rightarrow> ('b, 's) action" where
  "bind f g s =
     (case f s of
        (Ret x, s1) \<Rightarrow> g x s1
      | (Throw e, s1) \<Rightarrow> (Throw e, s1)
      | (Gap, s1) \<Rightarrow> (Gap, s1))"

text \<open>\<^verbatim>\<open>try { f } catch (e) { handler e }\<close>\<close>

definition try_catch :: "('a, 's) action \<Rightarrow> (exn \<Rightarrow> ('a, 's) action) \<Rightarrow> ('a, 's) action" where
  "try_catch f handler s =
     (case f s of
        (Ret x, s1) \<Rightarrow> (Ret x, s1)
      | (Throw e, s1) \<Rightarrow> handler e s1
      | (Gap, s1) \<Rightarrow> (Gap, s1))"

text \<open>An action leaves a part \<open>v\<close> of the state as it found it, whatever it returns.\<close>

definition preserves :: "('s \<Rightarrow> 'v) \<Rightarrow> ('a, 's) action \<Rightarrow> bool" where
  "preserves v f = (\<forall>s. v (snd (f s)) = v s)"

text \<open>A pure step that may throw or fall outside the model.\<close>

definition pure :: "'a outcome \<Rightarrow> ('a, 's) action" where
  "pure x s = (x, s)"

definition of_option :: "'a option \<Rightarrow> ('a, 's) action" where
  "of_option x s = (case x of None \<Rightarrow> (Gap, s) | Some v \<Rightarrow> (Ret v, s))"

text \<open>A call of a host operation.\<close>

definition host_call :: "('w \<Rightarrow> (exn + 'a) \<times> 'w) \<Rightarrow> ('a, 'w Process) action" where
  "host_call f ps =
     (case f (world ps) of
        (Inl e, w1) \<Rightarrow> (Throw e, ps\<lparr>world := w1\<rparr>)
      | (Inr x, w1) \<Rightarrow> (Ret x, ps\<lparr>world := w1\<rparr>))"

text \<open>\<^verbatim>\<open>fetch(url, init)\<close>: the request is recorded, then handed to the network.\<close>

definition fetch :: "'w Host \<Rightarrow> Request \<Rightarrow> (Response, 'w Process) action" where
  "fetch h req ps = host_call (net_fetch h req) (ps\<lparr>requests := requests ps @ [req]\<rparr>)"

text \<open>
  \<^verbatim>\<open>updateSyncState\<close> of config.ts. Without a memento it returns at once. Otherwise it
  merges the partial record into the current state and awaits
  \<^verbatim>\<open>globalState.update(STATE_KEY, updated)\<close>: the host answers for the memento, seeing the
  record and the outside world, and either takes the record, which the memento then
  holds, or rejects, which throws and leaves the memento with what it held. The memento
  is the component \<open>globalState\<close> of the process and no part of the outside world.
\<close>

definition updateSyncState :: "'w Host \<Rightarrow> PartialSyncState \<Rightarrow> (unit, 'w Process) action" where
  "updateSyncState h partial ps =
     (case globalState ps of
        None \<Rightarrow> (Ret (), ps)
      | Some stored \<Rightarrow>
          (let current = getSyncState (globalState ps);
               updated = spread current partial
           in case memento_update h updated (world ps) of
                Inl e \<Rightarrow> (Throw e, ps)
              | Inr u \<Rightarrow> (Ret (), ps\<lparr>globalState := Some (Some updated)\<rparr>)))"

section \<open>github.ts\<close>

definition GITHUB_API :: string where
  "GITHUB_API = ''https://api.github.com''"

definition GITHUB_RAW :: string where
  "GITHUB_RAW = ''https://raw.githubusercontent.com''"

record GitHubClient =
  repoInfo :: RepoInfo
  client_branch :: string
  basePath :: string
  token :: "string option"

definition GitHubClient_new :: "SyncConfig \<Rightarrow> GitHubClient outcome" where
  "GitHubClient_new config =
     (case parseRepoUrl (repoUrl config) of
        Ret None \<Rightarrow> Throw (Error ''Invalid repository URL configured'')
      | Ret (Some info) \<Rightarrow>
          Ret \<lparr> repoInfo = info, client_branch = branch config, basePath = repoPath config,
                token = (if githubToken config = [] then None else Some (githubToken config)) \<rparr>
      | Throw e \<Rightarrow> Throw e
      | Gap \<Rightarrow> Gap)"

definition getHeaders :: "GitHubClient \<Rightarrow> (string \<times> string) list" where
  "getHeaders c =
     [(''Accept'', ''application/vnd.github.v3+json''), (''User-Agent'', ''sync-code-dotfiles'')]
     @ (case token c of None \<Rightarrow> [] | Some t \<Rightarrow> [(''Authorization'', ''token '' @ t)])"

text \<open>\<^verbatim>\<open>/\/+/g\<close>\<close>

definition slashes :: rx where
  "slashes = plus (Chr CHR ''/'')"

definition to_GitHubFile :: "ApiFile \<Rightarrow> GitHubFile" where
  "to_GitHubFile f =
     \<lparr> gf_name = af_name f, gf_path = af_path f, gf_sha = af_sha f, gf_size = af_size f,
       gf_type = af_type f, gf_download_url = af_download_url f \<rparr>"

text \<open>The request \<^verbatim>\<open>listDirectory\<close> sends for a path.\<close>

definition listDirectory_request :: "GitHubClient \<Rightarrow> string \<Rightarrow> Request" where
  "listDirectory_request c path =
     (let fullPath =
            (if basePath c \<noteq> [] then
               String_replace (String_replace_all (basePath c @ ''/'' @ path) slashes ''/'')
                 trailing_slash []
             else path);
          url = GITHUB_API @ ''/repos/'' @ owner (repoInfo c) @ ''/'' @ repo (repoInfo c)
                @ ''/contents/'' @ fullPath @ ''?ref='' @ client_branch c
      in \<lparr> req_method = ''GET'', req_url = url, req_headers = getHeaders c, req_body = None \<rparr>)"

definition listDirectory :: "'w Host \<Rightarrow> GitHubClient \<Rightarrow> string \<Rightarrow> (GitHubFile list, 'w Process) action" where
  "listDirectory h c path =
     bind (fetch h (listDirectory_request c path))
       (\<lambda>response.
          if \<not> response_ok response then
            (if status response = 404 then ret []
             else throw (Error (''GitHub API error: '' @ decimal (status response) @ '' ''
                                @ statusText response)))
          else
            (case body_json response of
               Inl e \<Rightarrow> throw e
             | Inr data \<Rightarrow>
                 (case data of
                    JArray files \<Rightarrow> ret (map to_GitHubFile files)
                  | JObject f \<Rightarrow> ret (map to_GitHubFile [f])
                  | JOther m \<Rightarrow> gap)))"

definition fetchFileRaw :: "'w Host \<Rightarrow> GitHubClient \<Rightarrow> string \<Rightarrow> (string, 'w Process) action" where
  "fetchFileRaw h c path =
     (let fullPath =
            (if basePath c \<noteq> [] then String_replace_all (basePath c @ ''/'' @ path) slashes ''/''
             else path);
          url = GITHUB_RAW @ ''/'' @ owner (repoInfo c) @ ''/'' @ repo (repoInfo c) @ ''/''
                @ client_branch c @ ''/'' @ fullPath
      in bind (fetch h \<lparr> req_method = ''GET'', req_url = url, req_headers = [], req_body = None \<rparr>)
           (\<lambda>response.
              if \<not> response_ok response then
                throw (Error (''Failed to fetch '' @ path @ '': '' @ decimal (status response)))
              else ret (body_text response)))"

definition fetchFile :: "'w Host \<Rightarrow> GitHubClient \<Rightarrow> string \<Rightarrow> (GitHubContent, 'w Process) action" where
  "fetchFile h c path =
     (let fullPath =
            (if basePath c \<noteq> [] then String_replace_all (basePath c @ ''/'' @ path) slashes ''/''
             else path);
          url = GITHUB_API @ ''/repos/'' @ owner (repoInfo c) @ ''/'' @ repo (repoInfo c)
                @ ''/contents/'' @ fullPath @ ''?ref='' @ client_branch c
      in bind (fetch h \<lparr> req_method = ''GET'', req_url = url, req_headers = getHeaders c,
                          req_body = None \<rparr>)
           (\<lambda>response.
              if \<not> response_ok response then
                throw (Error (''Failed to fetch '' @ path @ '': '' @ decimal (status response)))
              else
                (case body_json response of
                   Inl e \<Rightarrow> throw e
                 | Inr data \<Rightarrow>
                     (case data of
                        JObject f \<Rightarrow>
                          ret \<lparr> gc_path = af_path f,
                                gc_content =
                                  (if af_encoding f = Some ''base64'' \<and> or_else (af_content f) [] \<noteq> []
                                   then base64_decode h (or_else (af_content f) [])
                                   else or_else (af_content f) []),
                                gc_sha = Some (af_sha f),
                                gc_encoding = af_encoding f \<rparr>
                      | JArray files \<Rightarrow> gap
                      | JOther m \<Rightarrow> gap))))"

definition json_message :: "exn + Json \<Rightarrow> string option" where
  "json_message j = (case j of Inl e \<Rightarrow> None | Inr data \<Rightarrow> (case data of JOther m \<Rightarrow> m | _ \<Rightarrow> None))"

definition pushFile :: "'w Host \<Rightarrow> GitHubClient \<Rightarrow> string \<Rightarrow> string \<Rightarrow> string \<Rightarrow> (unit, 'w Process) action" where
  "pushFile h c path content message =
     (if token c = None then throw (Error ''GitHub token required for push operations'')
      else
        (let fullPath =
               (if basePath c \<noteq> [] then String_replace_all (basePath c @ ''/'' @ path) slashes ''/''
                else path);
             url = GITHUB_API @ ''/repos/'' @ owner (repoInfo c) @ ''/'' @ repo (repoInfo c)
                   @ ''/contents/'' @ fullPath
         in bind (try_catch (bind (fetchFile h c path) (\<lambda>existing. ret (gc_sha existing)))
                    (\<lambda>e. ret None))
              (\<lambda>sha.
                 bind (fetch h \<lparr> req_method = ''PUT'', req_url = url,
                                 req_headers = getHeaders c @ [(''Content-Type'', ''application/json'')],
                                 req_body = Some \<lparr> pb_message = message,
                                                    pb_content = base64_encode h content,
                                                    pb_branch = client_branch c,
                                                    pb_sha = (if or_else sha [] \<noteq> [] then sha else None) \<rparr> \<rparr>)
                   (\<lambda>response.
                      if \<not> response_ok response then
                        throw (Error (''Failed to push '' @ path @ '': '' @ decimal (status response)
                                      @ '' - ''
                                      @ or_else (json_message (body_json response)) (statusText response)))
                      else ret ()))))"

text \<open>The path of a listing entry relative to the configured sub-path:
  \<^verbatim>\<open>entry.path.replace(new RegExp(`^${this.basePath}/?`), '')\<close>.\<close>

definition relativePath_of :: "GitHubClient \<Rightarrow> GitHubFile \<Rightarrow> string outcome" where
  "relativePath_of c entry =
     (if basePath c \<noteq> [] then
        (case RegExp_new (''^'' @ basePath c @ ''/?'') of
           Parsed r \<Rightarrow> Ret (String_replace (gf_path entry) r [])
         | SyntaxErr m \<Rightarrow> Throw (SyntaxError m)
         | Unsupported \<Rightarrow> Gap)
      else Ret (gf_path entry))"

text \<open>The files fetched so far: a \<^verbatim>\<open>Map\<close>, which keeps its keys in insertion order.\<close>

type_synonym Files = "(string \<times> string) list"

text \<open>
  \<^verbatim>\<open>processDirectory\<close> inside \<^verbatim>\<open>fetchAllFiles\<close>, with its loop over the entries. The first
  argument bounds the depth of the recursion: a remote tree deeper than the bound
  gives \<open>Gap\<close>.
\<close>

fun processDirectory ::
    "nat \<Rightarrow> 'w Host \<Rightarrow> GitHubClient \<Rightarrow> string list \<Rightarrow> string \<Rightarrow> (unit, Files \<times> 'w Process) action"
  and processEntries ::
    "nat \<Rightarrow> 'w Host \<Rightarrow> GitHubClient \<Rightarrow> string list \<Rightarrow> GitHubFile list
       \<Rightarrow> (unit, Files \<times> 'w Process) action" where
  "processDirectory 0 h c normalizedPatterns dirPath s = (Gap, s)"
| "processDirectory (Suc n) h c normalizedPatterns dirPath s =
     (case listDirectory h c dirPath (snd s) of
        (Ret entries, ps1) \<Rightarrow> processEntries n h c normalizedPatterns entries (fst s, ps1)
      | (Throw e, ps1) \<Rightarrow> (Throw e, (fst s, ps1))
      | (Gap, ps1) \<Rightarrow> (Gap, (fst s, ps1)))"
| "processEntries n h c normalizedPatterns [] s = (Ret (), s)"
| "processEntries n h c normalizedPatterns (entry # entries) s =
     (case relativePath_of c entry of
        Throw e \<Rightarrow> (Throw e, s)
      | Gap \<Rightarrow> (Gap, s)
      | Ret relativePath \<Rightarrow>
          if gf_type entry = TypeDir then
            (if shouldProcessDirectory relativePath normalizedPatterns then
               (case processDirectory n h c normalizedPatterns relativePath s of
                  (Ret u, s1) \<Rightarrow> processEntries n h c normalizedPatterns entries s1
                | (Throw e, s1) \<Rightarrow> (Throw e, s1)
                | (Gap, s1) \<Rightarrow> (Gap, s1))
             else processEntries n h c normalizedPatterns entries s)
          else if gf_type entry = TypeFile then
            (case matchesPatterns relativePath normalizedPatterns of
               Throw e \<Rightarrow> (Throw e, s)
             | Gap \<Rightarrow> (Gap, s)
             | Ret matched \<Rightarrow>
                 if matched then
                   (case fetchFileRaw h c relativePath (snd s) of
                      (Ret content, ps1) \<Rightarrow>
                        processEntries n h c normalizedPatterns entries
                          (AList.update relativePath content (fst s), ps1)
                    | (Throw e, ps1) \<Rightarrow>
                        processEntries n h c normalizedPatterns entries (fst s, ps1)
                    | (Gap, ps1) \<Rightarrow> (Gap, (fst s, ps1)))
                 else processEntries n h c normalizedPatterns entries s)
          else processEntries n h c normalizedPatterns entries s)"

definition fetchAllFiles :: "nat \<Rightarrow> 'w Host \<Rightarrow> GitHubClient \<Rightarrow> string list \<Rightarrow> (Files, 'w Process) action" where
  "fetchAllFiles n h c patterns ps =
     (let normalizedPatterns = normalizePatterns patterns
      in case processDirectory n h c normalizedPatterns [] ([], ps) of
           (Ret u, s1) \<Rightarrow> (Ret (fst s1), snd s1)
         | (Throw e, s1) \<Rightarrow> (Throw e, snd s1)
         | (Gap, s1) \<Rightarrow> (Gap, snd s1))"

section \<open>sync.ts\<close>

definition CURSOR_DIR :: string where
  "CURSOR_DIR = ''.cursor''"

record SyncManager =
  github :: GitHubClient

definition SyncManager_new :: "'w Host \<Rightarrow> SyncManager outcome" where
  "SyncManager_new h =
     (case GitHubClient_new (getConfig (host_settings h) (host_env h)) of
        Ret c \<Rightarrow> Ret \<lparr> github = c \<rparr>
      | Throw e \<Rightarrow> Throw e
      | Gap \<Rightarrow> Gap)"

text \<open>A step that touches only the process, inside a computation that also carries
  a value under construction (the \<^verbatim>\<open>result\<close> object, the map of files).\<close>

definition in_process :: "('a, 'p) action \<Rightarrow> ('a, 'r \<times> 'p) action" where
  "in_process f s = (case f (snd s) of (x, p1) \<Rightarrow> (x, (fst s, p1)))"

definition update_result :: "('r \<Rightarrow> 'r) \<Rightarrow> (unit, 'r \<times> 'p) action" where
  "update_result g s = (Ret (), (g (fst s), snd s))"

definition existsSync :: "'w Host \<Rightarrow> string \<Rightarrow> (bool, 'r \<times> 'w Process) action" where
  "existsSync h p s = (Ret (fs_existsSync h p (world (snd s))), s)"

definition getTargetPath :: "'w Host \<Rightarrow> SyncTarget \<Rightarrow> string outcome" where
  "getTargetPath h target =
     (case target of
        Global \<Rightarrow>
          (let home = or_else (env_HOME (host_env h)) (or_else (env_USERPROFILE (host_env h)) [])
           in case path_join (host_platform h) [home, CURSOR_DIR] of
                None \<Rightarrow> Gap | Some p \<Rightarrow> Ret p)
      | Workspace \<Rightarrow>
          (case workspaceFolder h of
             None \<Rightarrow> Throw (Error ''No workspace folder open'')
           | Some fsPath \<Rightarrow>
               (case path_join (host_platform h) [fsPath, CURSOR_DIR] of
                  None \<Rightarrow> Gap | Some p \<Rightarrow> Ret p)))"

definition showDiff :: "'w Host \<Rightarrow> string \<Rightarrow> string \<Rightarrow> string \<Rightarrow> (unit, 'w Process) action" where
  "showDiff h filePath localContent remoteContent =
     host_call (vscode_diff h filePath localContent remoteContent)"

definition handleConflict ::
    "'w Host \<Rightarrow> string \<Rightarrow> string \<Rightarrow> string \<Rightarrow> ConflictPolicy \<Rightarrow> SyncDirection
       \<Rightarrow> (Resolution, 'w Process) action" where
  "handleConflict h filePath localContent remoteContent defaultResolution direction =
     (if defaultResolution = PolicyKeepLocal then ret KeepLocal
      else if defaultResolution = PolicyUseRemote then ret UseRemote
      else
        (let localLabel = (if direction = Pull then ''Keep Local'' else ''Push Local'');
             remoteLabel = (if direction = Pull then ''Use Remote'' else ''Keep Remote'')
         in bind (host_call (showWarningMessage h (''Conflict in '' @ filePath)
                               [localLabel, remoteLabel, ''Show Diff'', ''Skip'']))
              (\<lambda>choice.
                 if choice = None \<or> choice = Some ''Skip'' then ret Skip
                 else if choice = Some ''Show Diff'' then
                   bind (showDiff h filePath localContent remoteContent)
                     (\<lambda>u. bind (host_call (showInformationMessage h
                                    (''After reviewing the diff for '' @ filePath @ '':'')
                                    [localLabel, remoteLabel, ''Skip'']))
                        (\<lambda>afterDiff.
                           if afterDiff = None \<or> afterDiff = Some ''Skip'' then ret Skip
                           else ret (if afterDiff = Some localLabel then KeepLocal else UseRemote)))
                 else ret (if choice = Some localLabel then KeepLocal else UseRemote))))"

text \<open>The body of the \<^verbatim>\<open>try\<close> inside the loop of \<^verbatim>\<open>pull\<close>.\<close>

definition pull_file ::
    "'w Host \<Rightarrow> SyncConfig \<Rightarrow> string \<Rightarrow> string \<Rightarrow> string \<Rightarrow> (unit, SyncResult \<times> 'w Process) action" where
  "pull_file h config targetPath relativePath remoteContent =
     bind (of_option (mapToLocalPath (host_platform h) relativePath targetPath)) (\<lambda>localPath.
     bind (of_option (path_dirname (host_platform h) localPath)) (\<lambda>localDir.
     bind (in_process (host_call (fs_mkdir h localDir))) (\<lambda>u.
     bind (existsSync h localPath) (\<lambda>present.
     bind (if present then
             bind (in_process (host_call (fs_readFile h localPath))) (\<lambda>localContent.
               if localContent \<noteq> remoteContent then
                 bind (in_process (handleConflict h relativePath localContent remoteContent
                                     (conflictResolution config) Pull)) (\<lambda>resolution.
                 bind (update_result (\<lambda>result. result\<lparr>conflicts := conflicts result @
                         [\<lparr> ci_path = relativePath, ci_localContent = localContent,
                            ci_remoteContent = remoteContent, ci_resolution = resolution \<rparr>]\<rparr>)) (\<lambda>u.
                 ret (resolution = UseRemote)))
               else ret True)
           else ret True) (\<lambda>shouldWrite.
     if shouldWrite then
       bind (in_process (host_call (fs_writeFile h localPath remoteContent))) (\<lambda>u.
       update_result (\<lambda>result. result\<lparr>filesProcessed := filesProcessed result + 1\<rparr>))
     else ret ())))))"

fun pull_files ::
    "'w Host \<Rightarrow> SyncConfig \<Rightarrow> string \<Rightarrow> Files \<Rightarrow> (unit, SyncResult \<times> 'w Process) action" where
  "pull_files h config targetPath [] s = (Ret (), s)"
| "pull_files h config targetPath (file # files) s =
     (case pull_file h config targetPath (fst file) (snd file) s of
        (Ret u, s1) \<Rightarrow> pull_files h config targetPath files s1
      | (Throw e, s1) \<Rightarrow>
          pull_files h config targetPath files
            ((fst s1)\<lparr>errors := errors (fst s1) @ [fst file @ '': '' @ error_text e]\<rparr>, snd s1)
      | (Gap, s1) \<Rightarrow> (Gap, s1))"

text \<open>\<^verbatim>\<open>await updateSyncState({ ... })\<close> inside \<^verbatim>\<open>pull\<close> and \<^verbatim>\<open>push\<close>; the partial record may
  read the clock.\<close>

definition save_state ::
    "'w Host \<Rightarrow> ('w Process \<Rightarrow> PartialSyncState) \<Rightarrow> (unit, 'r \<times> 'w Process) action" where
  "save_state h partial s = in_process (updateSyncState h (partial (snd s))) s"

text \<open>\<^verbatim>\<open>result.errors.length > 0 ? result.errors.join('; ') : null\<close>\<close>

definition joined_errors :: "SyncResult \<Rightarrow> string option" where
  "joined_errors result = (if errors result \<noteq> [] then Some (join_with ''; '' (errors result)) else None)"

text \<open>\<^verbatim>\<open>result.errors[0]\<close>\<close>

definition first_error :: "SyncResult \<Rightarrow> string option" where
  "first_error result = (case errors result of [] \<Rightarrow> None | m # ms \<Rightarrow> Some m)"


text \<open>The whole \<^verbatim>\<open>try\<close> block of \<^verbatim>\<open>pull\<close>.\<close>

definition pull_try :: "nat \<Rightarrow> 'w Host \<Rightarrow> SyncManager \<Rightarrow> SyncTarget \<Rightarrow> (unit, SyncResult \<times> 'w Process) action" where
  "pull_try n h m target =
     (let config = getConfig (host_settings h) (host_env h)
      in bind (pure (getTargetPath h target)) (\<lambda>targetPath.
         bind (in_process (host_call (fs_mkdir h targetPath))) (\<lambda>u.
         bind (in_process (fetchAllFiles n h (github m) (filesToSync config))) (\<lambda>remoteFiles.
         bind (pull_files h config targetPath remoteFiles) (\<lambda>u.
         bind (update_result (\<lambda>result. result\<lparr>success := (length (errors result) = 0)\<rparr>)) (\<lambda>u.
         (\<lambda>s. save_state h (\<lambda>ps.
                  \<lparr> set_lastSyncedAt = Some (Some (date_now h (world ps))),
                    set_lastSyncTarget = Some (Some target),
                    set_lastSyncDirection = Some (Some Pull),
                    set_lastSyncFiles = Some (map fst remoteFiles),
                    set_lastError = Some (joined_errors (fst s)) \<rparr>) s)))))))"

text \<open>The partial record \<^verbatim>\<open>{ lastError: ... }\<close>.\<close>

definition only_lastError :: "string option \<Rightarrow> PartialSyncState" where
  "only_lastError msg =
     \<lparr> set_lastSyncedAt = None, set_lastSyncTarget = None, set_lastSyncDirection = None,
       set_lastSyncFiles = None, set_lastError = Some msg \<rparr>"

text \<open>The \<^verbatim>\<open>catch\<close> block at the end of \<^verbatim>\<open>pull\<close> and of \<^verbatim>\<open>push\<close>.\<close>

definition sync_catch :: "'w Host \<Rightarrow> exn \<Rightarrow> (unit, SyncResult \<times> 'w Process) action" where
  "sync_catch h e =
     bind (update_result (\<lambda>result. result\<lparr>errors := errors result @ [error_text e]\<rparr>)) (\<lambda>u.
     (\<lambda>s. save_state h (\<lambda>ps. only_lastError (first_error (fst s))) s))"

definition new_result :: SyncResult where
  "new_result = \<lparr> success = False, filesProcessed = 0, errors = [], conflicts = [] \<rparr>"

definition pull :: "nat \<Rightarrow> 'w Host \<Rightarrow> SyncManager \<Rightarrow> SyncTarget \<Rightarrow> (SyncResult, 'w Process) action" where
  "pull n h m target ps =
     (case try_catch (pull_try n h m target) (sync_catch h) (new_result, ps) of
        (Ret u, s1) \<Rightarrow> (Ret (fst s1), snd s1)
      | (Throw e, s1) \<Rightarrow> (Throw e, snd s1)
      | (Gap, s1) \<Rightarrow> (Gap, snd s1))"

text \<open>\<^verbatim>\<open>/\\/g\<close>\<close>

definition backslash :: rx where
  "backslash = Chr BSL"

text \<open>\<^verbatim>\<open>scanDir\<close> inside \<^verbatim>\<open>collectLocalFiles\<close>, with its loop over the entries; the first
  argument bounds the depth of the recursion.\<close>

fun scanDir ::
    "nat \<Rightarrow> 'w Host \<Rightarrow> string list \<Rightarrow> string \<Rightarrow> string \<Rightarrow> (unit, Files \<times> 'w Process) action"
  and scanEntries ::
    "nat \<Rightarrow> 'w Host \<Rightarrow> string list \<Rightarrow> string \<Rightarrow> string \<Rightarrow> Dirent list
       \<Rightarrow> (unit, Files \<times> 'w Process) action" where
  "scanDir 0 h normalizedPatterns dir base s = (Gap, s)"
| "scanDir (Suc n) h normalizedPatterns dir base s =
     (if \<not> fs_existsSync h dir (world (snd s)) then (Ret (), s)
      else
        (case host_call (fs_readdir h dir) (snd s) of
           (Ret entries, ps1) \<Rightarrow> scanEntries n h normalizedPatterns dir base entries (fst s, ps1)
         | (Throw e, ps1) \<Rightarrow> (Throw e, (fst s, ps1))
         | (Gap, ps1) \<Rightarrow> (Gap, (fst s, ps1))))"
| "scanEntries n h normalizedPatterns dir base [] s = (Ret (), s)"
| "scanEntries n h normalizedPatterns dir base (entry # entries) s =
     (case (path_join (host_platform h) [dir, d_name entry],
            path_join (host_platform h) [base, d_name entry]) of
        (Some fullPath, Some joined) \<Rightarrow>
          (let relativePath = String_replace_all joined backslash ''/''
           in if d_kind entry = IsDirectory then
                (case scanDir n h normalizedPatterns fullPath relativePath s of
                   (Ret u, s1) \<Rightarrow> scanEntries n h normalizedPatterns dir base entries s1
                 | (Throw e, s1) \<Rightarrow> (Throw e, s1)
                 | (Gap, s1) \<Rightarrow> (Gap, s1))
              else if d_kind entry = IsFile then
                (case matchesAnyPattern relativePath normalizedPatterns of
                   Throw e \<Rightarrow> (Throw e, s)
                 | Gap \<Rightarrow> (Gap, s)
                 | Ret matched \<Rightarrow>
                     if matched then
                       (case host_call (fs_readFile h fullPath) (snd s) of
                          (Ret content, ps1) \<Rightarrow>
                            scanEntries n h normalizedPatterns dir base entries
                              (AList.update relativePath content (fst s), ps1)
                        | (Throw e, ps1) \<Rightarrow> (Throw e, (fst s, ps1))
                        | (Gap, ps1) \<Rightarrow> (Gap, (fst s, ps1)))
                     else scanEntries n h normalizedPatterns dir base entries s)
              else scanEntries n h normalizedPatterns dir base entries s)
      | _ \<Rightarrow> (Gap, s))"

definition collectLocalFiles :: "nat \<Rightarrow> 'w Host \<Rightarrow> string \<Rightarrow> string list \<Rightarrow> (Files, 'w Process) action" where
  "collectLocalFiles n h targetDir patterns ps =
     (let normalizedPatterns = normalizePatterns patterns;
          collected =
            bind (of_option (path_dirname (host_platform h) targetDir)) (\<lambda>parent.
            bind (of_option (path_join (host_platform h) [parent, ''.cursorrules''])) (\<lambda>cursorrules.
            bind (existsSync h cursorrules) (\<lambda>present.
            bind (if present then pure (matchesAnyPattern ''.cursorrules'' normalizedPatterns)
                  else ret False) (\<lambda>wanted.
            bind (if wanted then
                    bind (in_process (host_call (fs_readFile h cursorrules))) (\<lambda>content.
                    update_result (AList.update ''.cursorrules'' content))
                  else ret ()) (\<lambda>u.
            scanDir n h normalizedPatterns targetDir [])))))
      in case collected ([], ps) of
           (Ret u, s1) \<Rightarrow> (Ret (fst s1), snd s1)
         | (Throw e, s1) \<Rightarrow> (Throw e, snd s1)
         | (Gap, s1) \<Rightarrow> (Gap, snd s1))"

text \<open>The body of the \<^verbatim>\<open>try\<close> inside the loop of \<^verbatim>\<open>push\<close>. Its inner \<^verbatim>\<open>try\<close> swallows every
  exception of the remote read and of the conflict dialogue, leaving \<^verbatim>\<open>shouldPush\<close> true.\<close>

definition push_file ::
    "'w Host \<Rightarrow> SyncManager \<Rightarrow> SyncConfig \<Rightarrow> string \<Rightarrow> string \<Rightarrow> (unit, SyncResult \<times> 'w Process) action" where
  "push_file h m config relativePath localContent =
     bind (try_catch
             (bind (in_process (fetchFileRaw h (github m) relativePath)) (\<lambda>remoteContent.
                if remoteContent \<noteq> localContent then
                  bind (in_process (handleConflict h relativePath localContent remoteContent
                                      (conflictResolution config) Push)) (\<lambda>resolution.
                  bind (update_result (\<lambda>result. result\<lparr>conflicts := conflicts result @
                          [\<lparr> ci_path = relativePath, ci_localContent = localContent,
                             ci_remoteContent = remoteContent, ci_resolution = resolution \<rparr>]\<rparr>)) (\<lambda>u.
                  ret (resolution = KeepLocal)))
                else ret True))
             (\<lambda>e. ret True)) (\<lambda>shouldPush.
     if shouldPush then
       bind (in_process (pushFile h (github m) relativePath localContent
                           (''Update '' @ relativePath @ '' via Cursor Dotfiles Sync''))) (\<lambda>u.
       update_result (\<lambda>result. result\<lparr>filesProcessed := filesProcessed result + 1\<rparr>))
     else ret ())"

fun push_files ::
    "'w Host \<Rightarrow> SyncManager \<Rightarrow> SyncConfig \<Rightarrow> Files \<Rightarrow> (unit, SyncResult \<times> 'w Process) action" where
  "push_files h m config [] s = (Ret (), s)"
| "push_files h m config (file # files) s =
     (case push_file h m config (fst file) (snd file) s of
        (Ret u, s1) \<Rightarrow> push_files h m config files s1
      | (Throw e, s1) \<Rightarrow>
          push_files h m config files
            ((fst s1)\<lparr>errors := errors (fst s1) @ [fst file @ '': '' @ error_text e]\<rparr>, snd s1)
      | (Gap, s1) \<Rightarrow> (Gap, s1))"

text \<open>The statements of the \<^verbatim>\<open>try\<close> block of \<^verbatim>\<open>push\<close> that come before its loop: the token,
  the target path, its directory and the local files.\<close>

definition push_setup ::
    "nat \<Rightarrow> 'w Host \<Rightarrow> SyncManager \<Rightarrow> SyncTarget \<Rightarrow> (string \<times> Files, SyncResult \<times> 'w Process) action" where
  "push_setup n h m target =
     (let config = getConfig (host_settings h) (host_env h)
      in if githubToken config = [] then
           throw (Error ''GitHub token required for push. Configure cursorSync.githubToken in settings.'')
         else
           bind (pure (getTargetPath h target)) (\<lambda>targetPath.
           bind (existsSync h targetPath) (\<lambda>present.
           if \<not> present then throw (Error (''Target directory does not exist: '' @ targetPath))
           else
             bind (in_process (collectLocalFiles n h targetPath (filesToSync config))) (\<lambda>localFiles.
             ret (targetPath, localFiles)))))"

text \<open>The whole \<^verbatim>\<open>try\<close> block of \<^verbatim>\<open>push\<close>.\<close>

definition push_try :: "nat \<Rightarrow> 'w Host \<Rightarrow> SyncManager \<Rightarrow> SyncTarget \<Rightarrow> (unit, SyncResult \<times> 'w Process) action" where
  "push_try n h m target =
     (let config = getConfig (host_settings h) (host_env h)
      in if githubToken config = [] then
           throw (Error ''GitHub token required for push. Configure cursorSync.githubToken in settings.'')
         else
           bind (pure (getTargetPath h target)) (\<lambda>targetPath.
           bind (existsSync h targetPath) (\<lambda>present.
           if \<not> present then throw (Error (''Target directory does not exist: '' @ targetPath))
           else
             bind (in_process (collectLocalFiles n h targetPath (filesToSync config))) (\<lambda>localFiles.
             bind (push_files h m config localFiles) (\<lambda>u.
             bind (update_result (\<lambda>result. result\<lparr>success := (length (errors result) = 0)\<rparr>)) (\<lambda>u.
             (\<lambda>s. save_state h (\<lambda>ps.
                      \<lparr> set_lastSyncedAt = Some (Some (date_now h (world ps))),
                        set_lastSyncTarget = Some (Some target),
                        set_lastSyncDirection = Some (Some Push),
                        set_lastSyncFiles = Some (map fst localFiles),
                        set_lastError = Some (joined_errors (fst s)) \<rparr>) s)))))))"

definition push :: "nat \<Rightarrow> 'w Host \<Rightarrow> SyncManager \<Rightarrow> SyncTarget \<Rightarrow> (SyncResult, 'w Process) action" where
  "push n h m target ps =
     (case try_catch (push_try n h m target) (sync_catch h) (new_result, ps) of
        (Ret u, s1) \<Rightarrow> (Ret (fst s1), snd s1)
      | (Throw e, s1) \<Rightarrow> (Throw e, snd s1)
      | (Gap, s1) \<Rightarrow> (Gap, snd s1))"

section \<open>extension.ts\<close>



section \<open>An in-memory host\<close>

text \<open>
  A concrete host on which the program can be run: the world is the set of local
  files (absolute path and content, directories being implied by the files below
  them), the remote repository answers each URL with a fixed response and anything
  else with 404, the user dismisses every dialogue and the memento takes every
  record.
\<close>

definition mem_exists :: "Files \<Rightarrow> string \<Rightarrow> bool" where
  "mem_exists w p = list_ex (\<lambda>f. fst f = p \<or> startsWith (fst f) (p @ ''/'')) w"

definition mem_children :: "string \<Rightarrow> Files \<Rightarrow> Dirent list" where
  "mem_children dir w =
     remdups (concat (map (\<lambda>f.
       if startsWith (fst f) (dir @ ''/'') then
         (let rest = drop (length dir + 1) (fst f)
          in [\<lparr> d_name = split_head ''/'' rest,
                d_kind = (if str_includes rest ''/'' then IsDirectory else IsFile) \<rparr>])
       else []) w))"

definition not_found :: Response where
  "not_found = \<lparr> status = 404, statusText = ''Not Found'', body_text = ''404: Not Found'',
                  body_json = Inr (JOther (Some ''Not Found'')) \<rparr>"

definition serve :: "(string \<times> Response) list \<Rightarrow> Request \<Rightarrow> Response" where
  "serve site req =
     (if req_method req = ''GET'' then
        (case map_of site (req_url req) of None \<Rightarrow> not_found | Some r \<Rightarrow> r)
      else not_found)"

definition memory_host :: "Settings \<Rightarrow> string option \<Rightarrow> (Request \<Rightarrow> Response) \<Rightarrow> Files Host" where
  "memory_host s ws remote =
     \<lparr> host_platform = Posix,
       host_cwd = ''/'',
       host_settings = s,
       host_env = \<lparr> env_HOME = Some ''/home/u'', env_USERPROFILE = None,
                    env_CURSOR_SYNC_GITHUB_TOKEN = None \<rparr>,
       workspaceFolder = ws,
       date_now = (\<lambda>w. 1000),
       fs_mkdir = (\<lambda>p w. (Inr (), w)),
       fs_existsSync = (\<lambda>p w. mem_exists w p),
       fs_readFile = (\<lambda>p w.
         (case map_of w p of
            None \<Rightarrow> Inl (Error (''ENOENT: no such file or directory, open '' @ p))
          | Some c \<Rightarrow> Inr c, w)),
       fs_writeFile = (\<lambda>p c w. (Inr (), AList.update p c w)),
       fs_readdir = (\<lambda>p w. (Inr (mem_children p w), w)),
       net_fetch = (\<lambda>req w. (Inr (remote req), w)),
       showWarningMessage = (\<lambda>msg items w. (Inr None, w)),
       showInformationMessage = (\<lambda>msg items w. (Inr None, w)),
       vscode_diff = (\<lambda>p l r w. (Inr (), w)),
       memento_update = (\<lambda>v w. Inr ()),
       base64_encode = (\<lambda>x. x),
       base64_decode = (\<lambda>x. x) \<rparr>"

definition no_settings :: Settings where
  "no_settings =
     \<lparr> s_repoUrl = None, s_branch = None, s_repoPath = None, s_defaultSyncTarget = None,
       s_autoSyncEnabled = None, s_autoSyncIntervalMinutes = None, s_syncOnStartup = None,
       s_syncOnNewWorkspace = None, s_githubToken = None, s_conflictResolution = None,
       s_filesToSync = None \<rparr>"

definition start :: "'w \<Rightarrow> SyncState option \<Rightarrow> 'w Process" where
  "start w stored = \<lparr> world = w, requests = [], globalState = Some stored \<rparr>"

definition file_entry :: "string \<Rightarrow> string \<Rightarrow> ApiFile" where
  "file_entry name path =
     \<lparr> af_name = name, af_path = path, af_sha = ''0'', af_size = 1, af_type = TypeFile,
       af_download_url = None, af_content = None, af_encoding = None \<rparr>"

definition dir_entry :: "string \<Rightarrow> string \<Rightarrow> ApiFile" where
  "dir_entry name path =
     \<lparr> af_name = name, af_path = path, af_sha = ''0'', af_size = 0, af_type = TypeDir,
       af_download_url = None, af_content = None, af_encoding = None \<rparr>"

definition listing :: "ApiFile list \<Rightarrow> Response" where
  "listing entries = \<lparr> status = 200, statusText = ''OK'', body_text = [],
                        body_json = Inr (JArray entries) \<rparr>"

definition raw :: "string \<Rightarrow> Response" where
  "raw content = \<lparr> status = 200, statusText = ''OK'', body_text = content,
                    body_json = Inl (SyntaxError ''Unexpected token'') \<rparr>"

definition demo_client :: GitHubClient where
  "demo_client =
     \<lparr> repoInfo = \<lparr> owner = ''owner'', repo = ''repo'' \<rparr>, client_branch = ''main'',
       basePath = ''cursor'', token = None \<rparr>"

text \<open>The scenario of the rules file: the remote sub-path holds \<^verbatim>\<open>.cursorrules\<close> with
  content \<^verbatim>\<open>Y\<close>, the workspace holds \<^verbatim>\<open>.cursorrules\<close> with content \<^verbatim>\<open>X\<close>, the policy is
  \<^verbatim>\<open>useRemote\<close> and the patterns are left at their default.\<close>

definition rules_site :: "(string \<times> Response) list" where
  "rules_site =
     [(''https://api.github.com/repos/owner/repo/contents/cursor?ref=main'',
       listing [file_entry ''.cursorrules'' ''cursor/.cursorrules'']),
      (''https://raw.githubusercontent.com/owner/repo/main/cursor/.cursorrules'', raw ''Y'')]"

definition rules_settings :: Settings where
  "rules_settings =
     no_settings\<lparr> s_repoUrl := Some ''owner/repo'', s_conflictResolution := Some PolicyUseRemote \<rparr>"

definition rules_host :: "Files Host" where
  "rules_host = memory_host rules_settings (Some ''/ws'') (serve rules_site)"

definition rules_world :: Files where
  "rules_world = [(''/ws/.cursorrules'', ''X'')]"

text \<open>A remote tree with one file below one directory: \<^verbatim>\<open>a/foo.txt\<close>.\<close>

definition nested_site :: "(string \<times> Response) list" where
  "nested_site =
     [(''https://api.github.com/repos/owner/repo/contents/cursor?ref=main'',
       listing [dir_entry ''a'' ''cursor/a'']),
      (''https://api.github.com/repos/owner/repo/contents/cursor/a?ref=main'',
       listing [file_entry ''foo.txt'' ''cursor/a/foo.txt'']),
      (''https://raw.githubusercontent.com/owner/repo/main/cursor/a/foo.txt'', raw ''A'')]"

definition nested_host :: "Files Host" where
  "nested_host = memory_host no_settings (Some ''/ws'') (serve nested_site)"

text \<open>A site that answers the listing of the sub-path with a server error.\<close>

definition broken_site :: "(string \<times> Response) list" where
  "broken_site =
     [(''https://api.github.com/repos/owner/repo/contents/cursor?ref=main'',
       \<lparr> status = 500, statusText = ''Internal Server Error'', body_text = [],
         body_json = Inr (JOther None) \<rparr>)]"

text \<open>A sync root on Windows, \<^verbatim>\<open>C:\ws\.cursor\<close>, and a path with a line feed in it.\<close>

definition windows_root :: string where
  "windows_root = ''C:'' @ [BSL] @ ''ws'' @ [BSL] @ ''.cursor''"

definition two_line_path :: string where
  "two_line_path = [CHR ''a'', LF, CHR ''b'']"

text \<open>The scenario of the rules file with the single pattern \<^verbatim>\<open>**\<close>.\<close>

definition star_host :: "Files Host" where
  "star_host =
     memory_host (rules_settings\<lparr> s_filesToSync := Some [''**''] \<rparr>) (Some ''/ws'') (serve rules_site)"

definition star_result :: SyncResult where
  "star_result =
     \<lparr> success = True, filesProcessed = 1, errors = [],
       conflicts = [\<lparr> ci_path = ''.cursorrules'', ci_localContent = ''X'',
                      ci_remoteContent = ''Y'', ci_resolution = UseRemote \<rparr>] \<rparr>"

text \<open>A host with a token whose remote repository rejects every write.\<close>

definition token_host :: "Files Host" where
  "token_host =
     memory_host (rules_settings\<lparr> s_githubToken := Some ''tok'' \<rparr>) (Some ''/ws'') (serve rules_site)"

definition token_manager :: SyncManager where
  "token_manager = \<lparr> github = demo_client\<lparr> token := Some ''tok'' \<rparr> \<rparr>"

definition token_world :: Files where
  "token_world = [(''/ws/.cursor/mcp.json'', ''{}'')]"

definition token_result :: SyncResult where
  "token_result =
     \<lparr> success = False, filesProcessed = 0,
       errors = [''mcp.json: Failed to push mcp.json: 404 - Not Found''], conflicts = [] \<rparr>"

text \<open>A host without a workspace folder, and a state left by an earlier pull.\<close>

definition closed_host :: "Files Host" where
  "closed_host = memory_host rules_settings None (serve rules_site)"

definition earlier_state :: SyncState where
  "earlier_state =
     \<lparr> lastSyncedAt = Some 7, lastSyncTarget = Some Global, lastSyncDirection = Some Pull,
       lastSyncFiles = [''mcp.json''], lastError = None \<rparr>"

definition token_message :: string where
  "token_message = ''GitHub token required for push. Configure cursorSync.githubToken in settings.''"

text \<open>A host whose remote repository has nothing at all, and one whose listing fails.\<close>

definition empty_host :: "Files Host" where
  "empty_host = memory_host no_settings (Some ''/ws'') (serve [])"

definition broken_response :: Response where
  "broken_response =
     \<lparr> status = 500, statusText = ''Internal Server Error'', body_text = [],
       body_json = Inr (JOther None) \<rparr>"

definition broken_host :: "Files Host" where
  "broken_host = memory_host no_settings (Some ''/ws'') (serve broken_site)"

text \<open>The host of the scenario with the pattern \<^verbatim>\<open>**\<close>, with a memento whose storage has no
  room for a record that lists files.\<close>

definition full_host :: "Files Host" where
  "full_host =
     star_host\<lparr> memento_update :=
       (\<lambda>v w. if lastSyncFiles v = [] then Inr () else Inl (Error ''Storage quota exceeded'')) \<rparr>"

text \<open>The host without a workspace folder, with a memento that rejects every record.\<close>

definition locked_host :: "Files Host" where
  "locked_host = closed_host\<lparr> memento_update := (\<lambda>v w. Inl (Error ''Storage is locked'')) \<rparr>"


section \<open>Pattern matching, repository names and path mapping on concrete inputs\<close>

lemma open_paren_source:
  "RegExp_new (''^'' @ glob_source ''('' @ ''$'') =
     SyntaxErr ''Invalid regular expression: /^($/: Unterminated group''"
  by code_simp

text \<open>
  Claim C10. \<^verbatim>\<open>matchPattern\<close> is not total: for the pattern \<^verbatim>\<open>(\<close> the chain of replacements
  escapes nothing, the constructor is given \<^verbatim>\<open>^($\<close> and throws a \<^verbatim>\<open>SyntaxError\<close>; this happens
  in both classes and for every path other than the pattern itself (a path equal to the
  pattern returns before the expression is built).
\<close>

theorem matchPattern_throws:
  "path \<noteq> ''('' \<Longrightarrow>
     GitHubClient_matchPattern path ''('' =
       Throw (SyntaxError ''Invalid regular expression: /^($/: Unterminated group'') \<and>
     SyncManager_matchPattern path ''('' =
       Throw (SyntaxError ''Invalid regular expression: /^($/: Unterminated group'')"
  unfolding GitHubClient_matchPattern_def SyncManager_matchPattern_def Let_def
  by (simp only: open_paren_source) auto

theorem matchPattern_throws_witness:
  "''x'' \<noteq> ''('' \<and>
   GitHubClient_matchPattern ''x'' ''('' =
     Throw (SyntaxError ''Invalid regular expression: /^($/: Unterminated group'') \<and>
   SyncManager_matchPattern ''x'' ''('' =
     Throw (SyntaxError ''Invalid regular expression: /^($/: Unterminated group'')"
  using matchPattern_throws [of "''x''"] by simp

text \<open>
  Claim C3. The claim asks that \<^verbatim>\<open>**\<close> match every path. The pattern is compiled to
  \<^verbatim>\<open>^.*$\<close>, in which \<^verbatim>\<open>.\<close> does not match a line terminator: on the path of three code
  units \<^verbatim>\<open>a\<close>, line feed, \<^verbatim>\<open>b\<close> both matchers return false.
\<close>

theorem globstar_misses_line_feed:
  "GitHubClient_matchPattern two_line_path ''**'' = Ret False \<and>
   SyncManager_matchPattern two_line_path ''**'' = Ret False"
  by code_simp

text \<open>
  Claim C2. The claim asks that every ancestor directory of a matching file pass
  \<^verbatim>\<open>shouldProcessDirectory\<close>. For the pattern \<^verbatim>\<open>*/foo.txt\<close> the file \<^verbatim>\<open>a/foo.txt\<close> matches, yet
  its directory \<^verbatim>\<open>a\<close> fails the test, and \<^verbatim>\<open>fetchAllFiles\<close> over a remote tree that holds
  exactly this file returns the empty map.
\<close>

theorem descent_misses_file:
  "GitHubClient_matchPattern ''a/foo.txt'' ''*/foo.txt'' = Ret True \<and>
   shouldProcessDirectory ''a'' (normalizePatterns [''*/foo.txt'']) = False \<and>
   fst (fetchAllFiles 5 nested_host demo_client [''*/foo.txt''] (start [] None)) = Ret []"
  by code_simp

text \<open>
  Claim C8. The claim asks that an input naming the repository \<^verbatim>\<open>repo.git\<close> in any of the
  accepted shapes yield the name \<^verbatim>\<open>repo\<close>. In the shorthand shape the second group admits
  no dot and the expression is anchored at the end, so \<^verbatim>\<open>owner/repo.git\<close> matches none of
  the three patterns and \<^verbatim>\<open>parseRepoUrl\<close> returns \<^verbatim>\<open>null\<close>.
\<close>

theorem shorthand_with_git_suffix:
  "parseRepoUrl ''owner/repo.git'' = Ret None"
  by code_simp

text \<open>
  Claim C4. The claim asks that mapping a remote path to a local one and back give the
  remote path again. On Windows, for the sync root \<^verbatim>\<open>C:\ws\.cursor\<close>, the path
  \<^verbatim>\<open>rules/a.mdc\<close> is mapped to \<^verbatim>\<open>C:\ws\.cursor\rules\a.mdc\<close> and back to \<^verbatim>\<open>rules\a.mdc\<close>, with a
  backslash: \<^verbatim>\<open>mapToRemotePath\<close> returns what \<^verbatim>\<open>path.relative\<close> gives it.
\<close>

theorem windows_round_trip:
  "mapToLocalPath Win32 ''rules/a.mdc'' windows_root
     = Some (windows_root @ [BSL] @ ''rules'' @ [BSL] @ ''a.mdc'') \<and>
   mapToRemotePath Win32 ''C:'' (windows_root @ [BSL] @ ''rules'' @ [BSL] @ ''a.mdc'') windows_root
     = Some (''rules'' @ [BSL] @ ''a.mdc'')"
  by code_simp

text \<open>
  Claim C1. The claim asks that, with the default patterns, a pull under the policy
  \<^verbatim>\<open>useRemote\<close> record one conflict for \<^verbatim>\<open>.cursorrules\<close> and overwrite the local file. The
  normalisation of the patterns turns \<^verbatim>\<open>.cursorrules\<close> into \<^verbatim>\<open>rules\<close>, so the remote file
  is never fetched: the pull returns no conflict, processes no file, and the local file
  keeps its content \<^verbatim>\<open>X\<close>.
\<close>

theorem default_patterns_skip_rules_file:
  "SyncManager_new rules_host = Ret \<lparr> github = demo_client \<rparr> \<and>
   filesToSync (getConfig (host_settings rules_host) (host_env rules_host))
     = [''.cursorrules'', ''rules/**'', ''mcp.json'', ''prompts/**''] \<and>
   normalizePatterns [''.cursorrules'', ''rules/**'', ''mcp.json'', ''prompts/**'']
     = [''rules'', ''rules/**'', ''mcp.json'', ''prompts/**''] \<and>
   fst (pull 5 rules_host \<lparr> github = demo_client \<rparr> Workspace (start rules_world None))
     = Ret \<lparr> success = True, filesProcessed = 0, errors = [], conflicts = [] \<rparr> \<and>
   world (snd (pull 5 rules_host \<lparr> github = demo_client \<rparr> Workspace (start rules_world None)))
     = [(''/ws/.cursorrules'', ''X'')]"
  by code_simp

section \<open>What the matcher and the resolver do accept\<close>

text \<open>
  Away from line terminators \<^verbatim>\<open>**\<close> does match every path, \<^verbatim>\<open>rules/**\<close> behaves on the three
  paths of the specification as it says, a pattern without wildcards such as \<^verbatim>\<open>mcp.json\<close>
  matches its own text only, and the web and SSH shapes of a repository address lose
  their \<^verbatim>\<open>.git\<close>.
\<close>

lemma same_matcher: "SyncManager_matchPattern = GitHubClient_matchPattern"
  by (intro ext) (simp add: SyncManager_matchPattern_def GitHubClient_matchPattern_def)

lemma globstar_source:
  "RegExp_new (''^'' @ glob_source ''**'' @ ''$'') = Parsed (Cat Bol (Cat (Star AnyCh) (Cat Eol Eps)))"
  by code_simp

lemma star_any_reaches_end:
  "list_all (\<lambda>c. \<not> is_line_terminator c) s \<Longrightarrow>
     (i + length s, [], caps) \<in> set (run (Star AnyCh) (i, s, caps))"
proof (induction s arbitrary: i)
  case Nil
  show ?case by (subst run.simps) (simp del: run.simps)
next
  case (Cons c cs)
  have step: "run AnyCh (forget [] (i, c # cs, caps)) = [(Suc i, cs, caps)]"
    using Cons.prems
    by (simp add: eat_def forget_def m_idx_def m_rest_def m_caps_def del: run.simps(10))
  have "list_all (\<lambda>c. \<not> is_line_terminator c) cs"
    using Cons.prems by simp
  from Cons.IH [OF this, of "Suc i"]
  have "(Suc i + length cs, [], caps) \<in> set (run (Star AnyCh) (Suc i, cs, caps))" .
  then show ?case
    by (subst run.simps) (simp add: step m_rest_def del: run.simps)
qed

lemma run_anchor: "run (Cat Bol r) (0, s, caps) = run r (0, s, caps)"
  by (simp add: m_idx_def)

lemma run_end: "run (Cat Eol Eps) (i, [], caps) = [(i, [], caps)]"
  by (simp add: m_rest_def)

lemma run_seq_member:
  "q \<in> set (run a p) \<Longrightarrow> q' \<in> set (run b q) \<Longrightarrow> q' \<in> set (run (Cat a b) p)"
  by (simp only: run.simps(7)) auto

lemma search_found: "run r (i, s, []) \<noteq> [] \<Longrightarrow> search r i s \<noteq> None"
  by (cases s; cases "run r (i, s, [])") (simp_all del: run.simps)

lemma globstar_matches:
  assumes "list_all (\<lambda>c. \<not> is_line_terminator c) path"
  shows "GitHubClient_matchPattern path ''**'' = Ret True"
proof -
  have "(length path, [], []) \<in> set (run (Star AnyCh) (0, path, []))"
    using star_any_reaches_end [OF assms, of 0 "[]"] by (simp del: run.simps)
  moreover have "(length path, [], []) \<in> set (run (Cat Eol Eps) (length path, [], []))"
    by (simp only: run_end list.set insertI1)
  ultimately have "(length path, [], []) \<in> set (run (Cat (Star AnyCh) (Cat Eol Eps)) (0, path, []))"
    by (rule run_seq_member)
  then have "run (Cat Bol (Cat (Star AnyCh) (Cat Eol Eps))) (0, path, []) \<noteq> []"
    by (simp only: run_anchor) (metis empty_iff empty_set)
  then have "search (Cat Bol (Cat (Star AnyCh) (Cat Eol Eps))) 0 path \<noteq> None"
    by (rule search_found)
  then have "RegExp_test (Cat Bol (Cat (Star AnyCh) (Cat Eol Eps))) path"
    unfolding RegExp_test_def .
  then show ?thesis
    unfolding GitHubClient_matchPattern_def Let_def globstar_source
    by (simp del: run.simps search.simps)
qed

lemma rules_globstar_examples:
  "GitHubClient_matchPattern ''rules/a.mdc'' ''rules/**'' = Ret True"
  "GitHubClient_matchPattern ''rules/sub/b.mdc'' ''rules/**'' = Ret True"
  "GitHubClient_matchPattern ''rule/a.mdc'' ''rules/**'' = Ret False"
  by code_simp+

lemma word_then_end:
  "run (foldr (\<lambda>c r. Cat (Chr c) r) w (Cat Eol Eps)) (i, s, caps)
     = (if s = w then [(i + length w, [], caps)] else [])"
proof (induction w arbitrary: i s)
  case Nil
  show ?case by (simp add: m_rest_def)
next
  case (Cons c w)
  show ?case
  proof (cases s)
    case Nil
    then show ?thesis by (simp add: eat_def m_rest_def)
  next
    case (Cons d ds)
    then show ?thesis
      using Cons.IH [of "Suc i" ds]
      by (auto simp: eat_def m_rest_def m_idx_def m_caps_def)
  qed
qed

lemma anchored_later: "0 < i \<Longrightarrow> search (Cat Bol r) i s = None"
  by (induction s arbitrary: i) (simp_all add: m_idx_def)

lemma anchored_search:
  "search (Cat Bol r) 0 s = (case run r (0, s, []) of [] \<Rightarrow> None | q # qs \<Rightarrow> Some (0, q))"
proof (cases s)
  case Nil
  then show ?thesis by (simp only: search.simps run_anchor)
next
  case (Cons c cs)
  have later: "search (Cat Bol r) (Suc 0) cs = None"
    by (rule anchored_later) simp
  show ?thesis
    unfolding Cons search.simps run_anchor later
    by (cases "run r (0, c # cs, [])") (simp_all del: run.simps)
qed

lemma manifest_source:
  "RegExp_new (''^'' @ glob_source ''mcp.json'' @ ''$'')
     = Parsed (Cat Bol (foldr (\<lambda>c r. Cat (Chr c) r) ''mcp.json'' (Cat Eol Eps)))"
  by code_simp

lemma exact_pattern:
  "GitHubClient_matchPattern path ''mcp.json'' = Ret (path = ''mcp.json'')"
proof -
  define word where "word = foldr (\<lambda>c r. Cat (Chr c) r) ''mcp.json'' (Cat Eol Eps)"
  have src: "RegExp_new (''^'' @ glob_source ''mcp.json'' @ ''$'') = Parsed (Cat Bol word)"
    unfolding word_def by (rule manifest_source)
  have "run word (0, path, []) = (if path = ''mcp.json'' then [(0 + length ''mcp.json'', [], [])] else [])"
    unfolding word_def by (rule word_then_end)
  then have "RegExp_test (Cat Bol word) path = (path = ''mcp.json'')"
    by (simp add: RegExp_test_def anchored_search del: run.simps search.simps)
  then show ?thesis
    unfolding GitHubClient_matchPattern_def Let_def src
    by (auto simp del: run.simps search.simps)
qed

lemma parseRepoUrl_examples:
  "parseRepoUrl ''owner/repo'' = Ret (Some \<lparr> owner = ''owner'', repo = ''repo'' \<rparr>)"
  "parseRepoUrl ''https://github.com/owner/repo.git'' = Ret (Some \<lparr> owner = ''owner'', repo = ''repo'' \<rparr>)"
  "parseRepoUrl ''git@github.com:owner/repo.git'' = Ret (Some \<lparr> owner = ''owner'', repo = ''repo'' \<rparr>)"
  "parseRepoUrl ''nothing'' = Ret None"
  "parseRepoUrl [] = Ret None"
  by code_simp+

lemma rules_file_with_star:
  "world (snd (pull 5 star_host \<lparr> github = demo_client \<rparr> Workspace (start rules_world None)))
     = [(''/ws/.cursorrules'', ''Y'')]"
  by code_simp

section \<open>The round trip of the path mapping on POSIX\<close>

text \<open>
  With the POSIX path functions the mapping does round-trip: for a sync root that is an
  absolute path of plain segments and a remote path of one or more plain segments, the
  local path is the root (or, for the rules file, its parent) extended by the remote
  path, and mapping it back gives the remote path.
\<close>

lemma split_on_nonempty: "split_on f s \<noteq> []"
  by (induction s) (auto split: list.splits)

lemma split_on_plain: "\<not> list_ex f s \<Longrightarrow> split_on f s = [s]"
  by (induction s) auto

lemma split_on_sep: "f c \<Longrightarrow> split_on f (a @ c # b) = split_on f a @ split_on f b"
proof (induction a)
  case Nil
  then show ?case by simp
next
  case (Cons x a)
  then show ?case
    using split_on_nonempty [of f a]
    by (cases "split_on f a") auto
qed

lemma slash_is_slash: "is_slash CHR ''/''"
  by (simp add: is_slash_def)

lemma plain_no_slash: "plain_segment seg \<Longrightarrow> \<not> list_ex is_slash seg"
  by (simp add: plain_segment_def)

lemma plain_last: "plain_segment seg \<Longrightarrow> last seg \<noteq> CHR ''/''"
proof
  assume plain: "plain_segment seg" and "last seg = CHR ''/''"
  then have "CHR ''/'' \<in> set seg"
    using last_in_set [of seg] by (auto simp: plain_segment_def)
  then show False
    using plain slash_is_slash by (auto simp: plain_segment_def list_ex_iff)
qed

lemma split_join:
  "list_all plain_segment segs \<Longrightarrow> segs \<noteq> [] \<Longrightarrow> split_on is_slash (join_with ''/'' segs) = segs"
proof (induction "''/''" segs rule: join_with.induct)
  case 1
  then show ?case by simp
next
  case (2 x)
  then show ?case by (simp add: split_on_plain plain_no_slash)
next
  case (3 x y zs)
  have "split_on is_slash (x @ CHR ''/'' # join_with ''/'' (y # zs))
          = split_on is_slash x @ split_on is_slash (join_with ''/'' (y # zs))"
    by (rule split_on_sep) (rule slash_is_slash)
  then show ?case
    using 3 by (simp add: split_on_plain plain_no_slash)
qed

lemma join_inject:
  assumes "list_all plain_segment xs" "list_all plain_segment ys" "xs \<noteq> []" "ys \<noteq> []"
    and "join_with ''/'' xs = join_with ''/'' ys"
  shows "xs = ys"
proof -
  have "split_on is_slash (join_with ''/'' xs) = split_on is_slash (join_with ''/'' ys)"
    by (simp only: assms(5))
  then show ?thesis
    by (simp only: split_join [OF assms(1,3)] split_join [OF assms(2,4)])
qed

lemma join_append:
  "xs \<noteq> [] \<Longrightarrow> ys \<noteq> [] \<Longrightarrow>
     join_with sep (xs @ ys) = join_with sep xs @ sep @ join_with sep ys"
proof (induction sep xs rule: join_with.induct)
  case (1 sep)
  then show ?case by simp
next
  case (2 sep x)
  then show ?case by (cases ys) auto
next
  case (3 sep x y zs)
  then show ?case by simp
qed

lemma join_nonempty:
  "list_all plain_segment xs \<Longrightarrow> xs \<noteq> [] \<Longrightarrow> join_with ''/'' xs \<noteq> []"
  by (induction "''/''" xs rule: join_with.induct) (auto simp: plain_segment_def)

lemma join_last:
  "list_all plain_segment xs \<Longrightarrow> xs \<noteq> [] \<Longrightarrow> last (join_with ''/'' xs) \<noteq> CHR ''/''"
proof (induction "''/''" xs rule: join_with.induct)
  case 1
  then show ?case by simp
next
  case (2 x)
  then show ?case by (simp add: plain_last)
next
  case (3 x y zs)
  then show ?case using join_nonempty [of "y # zs"] by simp
qed

lemma norm_plain:
  "list_all (\<lambda>s. s = [] \<or> plain_segment s) xs \<Longrightarrow>
     foldl (norm_step a) acc xs = rev (filter (\<lambda>s. s \<noteq> []) xs) @ acc"
  by (induction xs arbitrary: acc) (auto simp: norm_step_def plain_segment_def)

lemma normalize_plain:
  "list_all (\<lambda>s. s = [] \<or> plain_segment s) xs \<Longrightarrow>
     normalizeString xs a = filter (\<lambda>s. s \<noteq> []) xs"
  by (simp add: normalizeString_def norm_plain)

lemma filter_plain: "list_all plain_segment xs \<Longrightarrow> filter (\<lambda>s. s \<noteq> []) xs = xs"
  by (induction xs) (auto simp: plain_segment_def)

lemma plain_or_empty: "list_all plain_segment xs \<Longrightarrow> list_all (\<lambda>s. s = [] \<or> plain_segment s) xs"
  by (induction xs) auto

text \<open>The segments of an absolute path written from plain segments.\<close>

lemma split_root:
  assumes "list_all plain_segment rs"
  shows "list_all (\<lambda>s. s = [] \<or> plain_segment s) (split_on is_slash (CHR ''/'' # join_with ''/'' rs))
       \<and> filter (\<lambda>s. s \<noteq> []) (split_on is_slash (CHR ''/'' # join_with ''/'' rs)) = rs"
proof -
  have head: "split_on is_slash (CHR ''/'' # join_with ''/'' rs)
                = [] # split_on is_slash (join_with ''/'' rs)"
    by (simp add: slash_is_slash)
  show ?thesis
  proof (cases "rs = []")
    case True
    then show ?thesis unfolding head by simp
  next
    case False
    show ?thesis
      unfolding head split_join [OF assms False]
      using plain_or_empty [OF assms] filter_plain [OF assms] by simp
  qed
qed

lemma resolve_root:
  assumes "list_all plain_segment rs"
  shows "posix_resolve cwd (CHR ''/'' # join_with ''/'' rs) = rs"
proof -
  have "normalizeString (split_on is_slash (CHR ''/'' # join_with ''/'' rs)) False = rs"
    using split_root [OF assms] normalize_plain by metis
  then show ?thesis
    by (simp add: posix_resolve_def del: split_on.simps)
qed

lemma join_under_root:
  assumes rs: "list_all plain_segment rs" and ss: "list_all plain_segment ss" and "ss \<noteq> []"
  shows "posix_join [CHR ''/'' # join_with ''/'' rs, join_with ''/'' ss]
           = CHR ''/'' # join_with ''/'' (rs @ ss)"
proof -
  let ?root = "CHR ''/'' # join_with ''/'' rs"
  let ?p = "join_with ''/'' ss"
  let ?joined = "?root @ CHR ''/'' # ?p"
  have p: "?p \<noteq> []" "last ?p \<noteq> CHR ''/''"
    using join_nonempty [OF ss assms(3)] join_last [OF ss assms(3)] by auto
  have split: "split_on is_slash ?joined = split_on is_slash ?root @ ss"
    using split_on_sep [where f = is_slash and c = "CHR ''/''" and a = ?root and b = ?p,
                        OF slash_is_slash]
      split_join [OF ss assms(3)]
    by (simp del: split_on.simps)
  have mixed: "list_all (\<lambda>s. s = [] \<or> plain_segment s) (split_on is_slash ?root @ ss)"
    using split_root [OF rs] plain_or_empty [OF ss] by (simp del: split_on.simps)
  have kept: "filter (\<lambda>s. s \<noteq> []) (split_on is_slash ?root @ ss) = rs @ ss"
    using split_root [OF rs] filter_plain [OF ss] by (simp del: split_on.simps)
  have segs: "normalizeString (split_on is_slash ?joined) False = rs @ ss"
    unfolding split using normalize_plain [OF mixed] kept by simp
  have all: "list_all plain_segment (rs @ ss)"
    using rs ss by simp
  have out: "join_with ''/'' (rs @ ss) \<noteq> []"
    using join_nonempty [OF all] assms(3) by simp
  have segs': "normalizeString
                 (split_on is_slash (CHR ''/'' # join_with ''/'' rs @ CHR ''/'' # join_with ''/'' ss))
                 False = rs @ ss"
    using segs by (simp del: split_on.simps)
  have "posix_normalize ?joined = CHR ''/'' # join_with ''/'' (rs @ ss)"
    using p out by (simp add: posix_normalize_def segs' Let_def del: split_on.simps)
  then show ?thesis
    using p by (simp add: posix_join_def del: split_on.simps)
qed

lemma drop_segment:
  assumes "plain_segment z"
  shows "dropWhile (\<lambda>d. \<not> is_slash d) (dropWhile is_slash (rev z @ t))
           = dropWhile (\<lambda>d. \<not> is_slash d) t"
proof -
  have none: "\<forall>d \<in> set z. \<not> is_slash d"
    using assms by (simp add: plain_segment_def list_ex_iff)
  obtain ys y where z: "z = ys @ [y]"
    using assms by (cases z rule: rev_cases) (auto simp: plain_segment_def)
  have "dropWhile is_slash (rev z @ t) = rev z @ t"
    using none z by simp
  moreover have "dropWhile (\<lambda>d. \<not> is_slash d) (rev z @ t) = dropWhile (\<lambda>d. \<not> is_slash d) t"
    using none by (simp add: dropWhile_append)
  ultimately show ?thesis by simp
qed

lemma dirname_root:
  assumes "list_all plain_segment rs"
  shows "posix_dirname (CHR ''/'' # join_with ''/'' rs) = CHR ''/'' # join_with ''/'' (butlast rs)"
proof (cases rs rule: rev_cases)
  case Nil
  then show ?thesis by (simp add: posix_dirname_def slash_is_slash)
next
  case (snoc xs z)
  have z: "plain_segment z"
    using assms snoc by simp
  show ?thesis
  proof (cases "xs = []")
    case True
    have gone: "dropWhile (\<lambda>d. \<not> is_slash d) (dropWhile is_slash (rev z)) = []"
      using drop_segment [OF z, of "[]"] by simp
    show ?thesis
      unfolding snoc True posix_dirname_def
      by (simp add: gone slash_is_slash)
  next
    case False
    have xs: "list_all plain_segment xs"
      using assms snoc by simp
    have "join_with ''/'' rs = join_with ''/'' xs @ ''/'' @ z"
      using snoc False join_append [of xs "[z]" "''/''"] by simp
    then have "rev (join_with ''/'' rs) = rev z @ CHR ''/'' # rev (join_with ''/'' xs)"
      by simp
    then have rest: "dropWhile (\<lambda>d. \<not> is_slash d) (dropWhile is_slash (rev (join_with ''/'' rs)))
                 = CHR ''/'' # rev (join_with ''/'' xs)"
      using drop_segment [OF z, of "CHR ''/'' # rev (join_with ''/'' xs)"]
      by (simp add: slash_is_slash)
    have above: "join_with ''/'' xs \<noteq> []"
      using join_nonempty [OF xs False] .
    have "butlast rs = xs"
      using snoc by simp
    then show ?thesis
      unfolding posix_dirname_def
      by (simp add: rest above slash_is_slash)
  qed
qed

lemma common_prefix_append: "common_prefix xs (xs @ ys) = length xs"
  by (induction xs) auto

lemma rules_segment: "list_all plain_segment [''.cursorrules'']"
  by (simp add: plain_segment_def is_slash_def)

lemma butlast_plain: "list_all plain_segment rs \<Longrightarrow> list_all plain_segment (butlast rs)"
  by (induction rs) auto

lemma rules_path:
  assumes "list_all plain_segment rs"
  shows "posix_join [posix_dirname (CHR ''/'' # join_with ''/'' rs), ''.cursorrules'']
           = CHR ''/'' # join_with ''/'' (butlast rs @ [''.cursorrules''])"
proof -
  have "posix_join [CHR ''/'' # join_with ''/'' (butlast rs), join_with ''/'' [''.cursorrules'']]
          = CHR ''/'' # join_with ''/'' (butlast rs @ [''.cursorrules''])"
    by (rule join_under_root [OF butlast_plain [OF assms] rules_segment]) simp
  then show ?thesis
    by (simp only: dirname_root [OF assms] join_with.simps)
qed

lemma rules_name:
  assumes "list_all plain_segment ss" and "ss \<noteq> []"
  shows "join_with ''/'' ss = ''.cursorrules'' \<longleftrightarrow> ss = [''.cursorrules'']"
proof
  assume "join_with ''/'' ss = ''.cursorrules''"
  then have "join_with ''/'' ss = join_with ''/'' [''.cursorrules'']"
    by (simp only: join_with.simps)
  from join_inject [OF assms(1) rules_segment assms(2) _ this]
  show "ss = [''.cursorrules'']"
    by simp
next
  assume "ss = [''.cursorrules'']"
  then show "join_with ''/'' ss = ''.cursorrules''"
    by (simp only: join_with.simps)
qed

lemma local_is_not_rules:
  assumes rs: "list_all plain_segment rs" and ss: "list_all plain_segment ss" and "ss \<noteq> []"
    and other: "ss \<noteq> [''.cursorrules'']"
  shows "CHR ''/'' # join_with ''/'' (rs @ ss)
           \<noteq> CHR ''/'' # join_with ''/'' (butlast rs @ [''.cursorrules''])"
proof
  assume "CHR ''/'' # join_with ''/'' (rs @ ss)
            = CHR ''/'' # join_with ''/'' (butlast rs @ [''.cursorrules''])"
  then have joined: "join_with ''/'' (rs @ ss) = join_with ''/'' (butlast rs @ [''.cursorrules''])"
    by (simp only: list.inject)
  have left: "list_all plain_segment (rs @ ss)"
    using rs ss by simp
  have right: "list_all plain_segment (butlast rs @ [''.cursorrules''])"
    using butlast_plain [OF rs] rules_segment by simp
  have same: "rs @ ss = butlast rs @ [''.cursorrules'']"
    by (rule join_inject [OF left right _ _ joined]) (use assms(3) in simp_all)
  then have "length (rs @ ss) = length (butlast rs @ [''.cursorrules''])"
    by (simp only:)
  then have "length rs + length ss = length rs - 1 + 1"
    by simp
  moreover have "0 < length ss"
    using assms(3) by simp
  ultimately have "rs = []"
    by (cases rs) auto
  then show False
    using same other by simp
qed

lemma local_is_not_root:
  assumes rs: "list_all plain_segment rs" and ss: "list_all plain_segment ss" and "ss \<noteq> []"
  shows "CHR ''/'' # join_with ''/'' rs \<noteq> CHR ''/'' # join_with ''/'' (rs @ ss)"
proof
  assume "CHR ''/'' # join_with ''/'' rs = CHR ''/'' # join_with ''/'' (rs @ ss)"
  then have joined: "join_with ''/'' rs = join_with ''/'' (rs @ ss)"
    by (simp only: list.inject)
  have both: "list_all plain_segment (rs @ ss)"
    using rs ss by simp
  show False
  proof (cases "rs = []")
    case True
    then show ?thesis
      using joined join_nonempty [OF ss assms(3)] by simp
  next
    case False
    have "rs = rs @ ss"
      by (rule join_inject [OF rs both False _ joined]) (use False in simp)
    then show ?thesis
      using assms(3) by simp
  qed
qed

lemma relative_below_root:
  assumes rs: "list_all plain_segment rs" and ss: "list_all plain_segment ss" and "ss \<noteq> []"
  shows "posix_relative cwd (CHR ''/'' # join_with ''/'' rs) (CHR ''/'' # join_with ''/'' (rs @ ss))
           = join_with ''/'' ss"
proof -
  have both: "list_all plain_segment (rs @ ss)"
    using rs ss by simp
  have "join_with ''/'' (replicate (length rs - common_prefix rs (rs @ ss)) ''..''
          @ drop (common_prefix rs (rs @ ss)) (rs @ ss)) = join_with ''/'' ss"
    by (simp add: common_prefix_append)
  then show ?thesis
    unfolding posix_relative_def Let_def resolve_root [OF rs] resolve_root [OF both]
    using local_is_not_root [OF assms] by (simp only: if_False)
qed

lemma posix_round_trip:
  assumes rs: "list_all plain_segment rs" and ss: "list_all plain_segment ss" and "ss \<noteq> []"
  shows "mapToLocalPath Posix (join_with ''/'' ss) (CHR ''/'' # join_with ''/'' rs)
           = Some (if ss = [''.cursorrules''] then CHR ''/'' # join_with ''/'' (butlast rs @ ss)
                   else CHR ''/'' # join_with ''/'' (rs @ ss))
       \<and> mapToRemotePath Posix cwd
           (if ss = [''.cursorrules''] then CHR ''/'' # join_with ''/'' (butlast rs @ ss)
            else CHR ''/'' # join_with ''/'' (rs @ ss))
           (CHR ''/'' # join_with ''/'' rs)
           = Some (join_with ''/'' ss)"
proof (cases "ss = [''.cursorrules'']")
  case True
  have "join_with ''/'' ss = ''.cursorrules''"
    using rules_name [OF ss assms(3)] True by (simp only:)
  then show ?thesis
    unfolding mapToLocalPath_def mapToRemotePath_def path_dirname_def path_join_def
      path_relative_def
    by (simp only: True rules_path [OF rs] platform.case option.case if_True simp_thms)
next
  case False
  have name: "join_with ''/'' ss \<noteq> ''.cursorrules''"
    using rules_name [OF ss assms(3)] False by (simp only: simp_thms)
  show ?thesis
    unfolding mapToLocalPath_def mapToRemotePath_def path_dirname_def path_join_def
      path_relative_def
    by (simp only: False name rules_path [OF rs] join_under_root [OF rs ss assms(3)]
          local_is_not_rules [OF rs ss assms(3) False] relative_below_root [OF rs ss assms(3)]
          platform.case option.case if_False simp_thms)
qed

section \<open>Frames of the actions\<close>

lemma bind_Ret:
  "bind f g s = (Ret y, s') \<longleftrightarrow> (\<exists>x s1. f s = (Ret x, s1) \<and> g x s1 = (Ret y, s'))"
  by (auto simp: bind_def split: prod.splits outcome.splits)

lemma bind_Throw:
  "bind f g s = (Throw e, s') \<longleftrightarrow>
     f s = (Throw e, s') \<or> (\<exists>x s1. f s = (Ret x, s1) \<and> g x s1 = (Throw e, s'))"
  by (auto simp: bind_def split: prod.splits outcome.splits)

lemma preservesD: "preserves v f \<Longrightarrow> f s = (x, s1) \<Longrightarrow> v s1 = v s"
  unfolding preserves_def by (metis snd_conv)

lemma preserves_bind [intro]:
  "preserves v f \<Longrightarrow> (\<And>x. preserves v (g x)) \<Longrightarrow> preserves v (bind f g)"
  unfolding preserves_def bind_def
  by (auto split: prod.splits outcome.splits) (metis snd_conv)+

lemma preserves_try_catch [intro]:
  "preserves v f \<Longrightarrow> (\<And>e. preserves v (g e)) \<Longrightarrow> preserves v (try_catch f g)"
  unfolding preserves_def try_catch_def
  by (auto split: prod.splits outcome.splits) (metis snd_conv)+

lemma preserves_simple [intro, simp]:
  "preserves v (ret x)" "preserves v (throw e)" "preserves v gap" "preserves v (pure y)"
  "preserves v (of_option z)"
  by (auto simp: preserves_def ret_def throw_def gap_def pure_def of_option_def split: option.splits)

lemma preserves_if [intro]:
  "(b \<Longrightarrow> preserves v f) \<Longrightarrow> (\<not> b \<Longrightarrow> preserves v g) \<Longrightarrow> preserves v (if b then f else g)"
  by simp

lemma preserves_in_process [intro]:
  "preserves (\<lambda>s. q (fst s)) (in_process f)"
  by (auto simp: preserves_def in_process_def split: prod.splits)


lemma preserves_existsSync [intro, simp]: "preserves v (existsSync h p)"
  by (simp add: preserves_def existsSync_def)

lemma preserves_update_result [intro]:
  "(\<And>r. q (g r) = q r) \<Longrightarrow> preserves (\<lambda>s. q (fst s)) (update_result g)"
  by (simp add: preserves_def update_result_def)


lemma success_pull_file:
  "preserves (\<lambda>s. success (fst s)) (pull_file h config targetPath relativePath remoteContent)"
  unfolding pull_file_def
  by (intro preserves_bind preserves_if preserves_in_process preserves_update_result
        preserves_simple preserves_existsSync) simp_all

lemma success_pull_files:
  "pull_files h config targetPath fs s = (x, s2) \<Longrightarrow> success (fst s2) = success (fst s)"
proof (induction fs arbitrary: s)
  case Nil
  then show ?case by simp
next
  case (Cons f fs)
  obtain y s1 where step: "pull_file h config targetPath (fst f) (snd f) s = (y, s1)"
    by (cases "pull_file h config targetPath (fst f) (snd f) s")
  have kept: "success (fst s1) = success (fst s)"
    using preservesD [OF success_pull_file step] .
  show ?case
  proof (cases y)
    case (Ret u)
    then have "pull_files h config targetPath fs s1 = (x, s2)"
      using Cons.prems step by simp
    from Cons.IH [OF this] kept show ?thesis by simp
  next
    case (Throw e)
    then have "pull_files h config targetPath fs
                 ((fst s1)\<lparr>errors := errors (fst s1) @ [fst f @ '': '' @ error_text e]\<rparr>, snd s1)
               = (x, s2)"
      using Cons.prems step by simp
    from Cons.IH [OF this] kept show ?thesis by simp
  next
    case Gap
    then show ?thesis using Cons.prems step kept by simp
  qed
qed

lemma success_push_file:
  "preserves (\<lambda>s. success (fst s)) (push_file h m config relativePath content)"
  unfolding push_file_def
  by (intro preserves_bind preserves_try_catch preserves_if preserves_in_process
        preserves_update_result preserves_simple) simp_all

lemma success_push_files:
  "push_files h m config fs s = (x, s2) \<Longrightarrow> success (fst s2) = success (fst s)"
proof (induction fs arbitrary: s)
  case Nil
  then show ?case by simp
next
  case (Cons f fs)
  obtain y s1 where step: "push_file h m config (fst f) (snd f) s = (y, s1)"
    by (cases "push_file h m config (fst f) (snd f) s")
  have kept: "success (fst s1) = success (fst s)"
    using preservesD [OF success_push_file step] .
  show ?case
  proof (cases y)
    case (Ret u)
    then have "push_files h m config fs s1 = (x, s2)"
      using Cons.prems step by simp
    from Cons.IH [OF this] kept show ?thesis by simp
  next
    case (Throw e)
    then have "push_files h m config fs
                 ((fst s1)\<lparr>errors := errors (fst s1) @ [fst f @ '': '' @ error_text e]\<rparr>, snd s1)
               = (x, s2)"
      using Cons.prems step by simp
    from Cons.IH [OF this] kept show ?thesis by simp
  next
    case Gap
    then show ?thesis using Cons.prems step kept by simp
  qed
qed

lemma preservesI: "(\<And>s x s1. f s = (x, s1) \<Longrightarrow> v s1 = v s) \<Longrightarrow> preserves v f"
  unfolding preserves_def by (metis prod.collapse)
lemma spread_only_lastError: "spread current (only_lastError msg) = current\<lparr>lastError := msg\<rparr>"
  by (simp add: spread_def only_lastError_def config_get_def)

lemma updateSyncState_world [intro, simp]: "preserves world (updateSyncState h partial)"
  by (auto simp: preserves_def updateSyncState_def Let_def split: option.splits sum.splits)

lemma updateSyncState_requests [intro, simp]: "preserves requests (updateSyncState h partial)"
  by (auto simp: preserves_def updateSyncState_def Let_def split: option.splits sum.splits)

lemma updateSyncState_no_memento:
  "globalState ps = None \<Longrightarrow> updateSyncState h partial ps = (Ret (), ps)"
  by (simp add: updateSyncState_def)

lemma updateSyncState_taken:
  "globalState ps \<noteq> None \<Longrightarrow>
   memento_update h (spread (getSyncState (globalState ps)) partial) (world ps) = Inr () \<Longrightarrow>
     updateSyncState h partial ps
       = (Ret (), ps\<lparr>globalState := Some (Some (spread (getSyncState (globalState ps)) partial))\<rparr>)"
  by (auto simp: updateSyncState_def Let_def split: option.splits)

lemma updateSyncState_rejected:
  "globalState ps \<noteq> None \<Longrightarrow>
   memento_update h (spread (getSyncState (globalState ps)) partial) (world ps) = Inl e \<Longrightarrow>
     updateSyncState h partial ps = (Throw e, ps)"
  by (auto simp: updateSyncState_def Let_def split: option.splits)

lemma updateSyncState_accepting:
  assumes "\<And>v w. memento_update h v w = Inr ()"
  shows "fst (updateSyncState h partial ps) = Ret ()"
  using assms by (auto simp: updateSyncState_def Let_def split: option.splits sum.splits)

lemma save_state_result [intro, simp]: "preserves (\<lambda>s. fst s) (save_state h p)"
  by (auto simp: preserves_def save_state_def in_process_def split: prod.splits)

lemma save_state_accepting:
  assumes "\<And>v w. memento_update h v w = Inr ()"
  shows "save_state h p s \<noteq> (Throw e, s1)"
proof
  assume "save_state h p s = (Throw e, s1)"
  then have "fst (updateSyncState h (p (snd s)) (snd s)) = Throw e"
    by (auto simp: save_state_def in_process_def split: prod.splits)
  then show False
    using updateSyncState_accepting [OF assms] by simp
qed

lemma pull_try_Ret:
  assumes "pull_try n h m target s = (Ret u, s1)"
  shows "success (fst s1) = (length (errors (fst s1)) = 0)"
proof -
  obtain s0 p where finish: "save_state h p s0 = (Ret u, s1)"
    and set: "success (fst s0) = (length (errors (fst s0)) = 0)"
    using assms unfolding pull_try_def Let_def
    by (auto simp: bind_Ret update_result_def)
  from preservesD [OF save_state_result finish] set show ?thesis by simp
qed

lemma pull_try_Throw:
  assumes "\<And>v w. memento_update h v w = Inr ()"
    and "pull_try n h m target s = (Throw e, s1)"
  shows "success (fst s1) = success (fst s)"
proof -
  have "preserves (\<lambda>s. success (fst s))
          (bind (pure (getTargetPath h target)) (\<lambda>targetPath.
           bind (in_process (host_call (fs_mkdir h targetPath))) (\<lambda>u.
           bind (in_process (fetchAllFiles n h (github m)
                   (filesToSync (getConfig (host_settings h) (host_env h))))) (\<lambda>remoteFiles.
           pull_files h (getConfig (host_settings h) (host_env h)) targetPath remoteFiles))))"
    (is "preserves _ ?setup")
    by (intro preserves_bind preserves_in_process preserves_simple preservesI success_pull_files)
  moreover have "?setup s = (Throw e, s1)"
    using assms(2) unfolding pull_try_def Let_def
    by (auto simp: bind_Throw bind_Ret update_result_def save_state_accepting [OF assms(1)])
  ultimately show ?thesis
    by (rule preservesD)
qed

lemma push_try_Ret:
  assumes "push_try n h m target s = (Ret u, s1)"
  shows "success (fst s1) = (length (errors (fst s1)) = 0)"
proof -
  obtain s0 p where finish: "save_state h p s0 = (Ret u, s1)"
    and set: "success (fst s0) = (length (errors (fst s0)) = 0)"
    using assms unfolding push_try_def Let_def
    by (auto simp: bind_Ret update_result_def throw_def split: if_splits)
  from preservesD [OF save_state_result finish] set show ?thesis by simp
qed

lemma push_try_Throw:
  assumes "\<And>v w. memento_update h v w = Inr ()"
    and "push_try n h m target s = (Throw e, s1)"
  shows "success (fst s1) = success (fst s)"
proof -
  have "preserves (\<lambda>s. success (fst s))
          (if githubToken (getConfig (host_settings h) (host_env h)) = [] then
             throw (Error ''GitHub token required for push. Configure cursorSync.githubToken in settings.'')
           else
             bind (pure (getTargetPath h target)) (\<lambda>targetPath.
             bind (existsSync h targetPath) (\<lambda>present.
             if \<not> present then throw (Error (''Target directory does not exist: '' @ targetPath))
             else
               bind (in_process (collectLocalFiles n h targetPath
                       (filesToSync (getConfig (host_settings h) (host_env h))))) (\<lambda>localFiles.
               push_files h m (getConfig (host_settings h) (host_env h)) localFiles))))"
    (is "preserves _ ?setup")
    by (intro preserves_bind preserves_if preserves_in_process preserves_simple
          preserves_existsSync preservesI success_push_files)
  moreover have "?setup s = (Throw e, s1)"
    using assms(2) unfolding push_try_def Let_def
    by (auto simp: bind_Throw bind_Ret update_result_def save_state_accepting [OF assms(1)]
             split: if_splits)
  ultimately show ?thesis
    by (rule preservesD)
qed

lemma sync_catch_result:
  "sync_catch h e s = (x, s1) \<Longrightarrow> fst s1 = (fst s)\<lparr>errors := errors (fst s) @ [error_text e]\<rparr>"
proof -
  assume caught: "sync_catch h e s = (x, s1)"
  let ?s0 = "((fst s)\<lparr>errors := errors (fst s) @ [error_text e]\<rparr>, snd s)"
  have "save_state h (\<lambda>ps. only_lastError (first_error (fst ?s0))) ?s0 = (x, s1)"
    using caught by (simp add: sync_catch_def bind_def update_result_def)
  from preservesD [OF save_state_result this] show ?thesis by simp
qed

lemma pull_result:
  assumes "\<And>v w. memento_update h v w = Inr ()"
    and "pull n h m target ps = (Ret result, ps')"
  shows "success result = (length (errors result) = 0)"
proof -
  obtain x s0 where body: "pull_try n h m target (new_result, ps) = (x, s0)"
    by (cases "pull_try n h m target (new_result, ps)")
  show ?thesis
  proof (cases x)
    case (Ret u)
    then have "result = fst s0"
      using assms(2) body by (auto simp: pull_def try_catch_def)
    then show ?thesis
      using pull_try_Ret body Ret by blast
  next
    case (Throw e)
    obtain y s1 where caught: "sync_catch h e s0 = (y, s1)"
      by (cases "sync_catch h e s0")
    have "result = fst s1"
      using assms(2) body Throw caught by (auto simp: pull_def try_catch_def split: outcome.splits)
    moreover have "\<not> success (fst s0)"
      using pull_try_Throw [OF assms(1)] body Throw by (fastforce simp: new_result_def)
    ultimately show ?thesis
      using sync_catch_result [OF caught] by simp
  next
    case Gap
    then show ?thesis
      using assms(2) body by (auto simp: pull_def try_catch_def)
  qed
qed

lemma push_result:
  assumes "\<And>v w. memento_update h v w = Inr ()"
    and "push n h m target ps = (Ret result, ps')"
  shows "success result = (length (errors result) = 0)"
proof -
  obtain x s0 where body: "push_try n h m target (new_result, ps) = (x, s0)"
    by (cases "push_try n h m target (new_result, ps)")
  show ?thesis
  proof (cases x)
    case (Ret u)
    then have "result = fst s0"
      using assms(2) body by (auto simp: push_def try_catch_def)
    then show ?thesis
      using push_try_Ret body Ret by blast
  next
    case (Throw e)
    obtain y s1 where caught: "sync_catch h e s0 = (y, s1)"
      by (cases "sync_catch h e s0")
    have "result = fst s1"
      using assms(2) body Throw caught by (auto simp: push_def try_catch_def split: outcome.splits)
    moreover have "\<not> success (fst s0)"
      using push_try_Throw [OF assms(1)] body Throw by (fastforce simp: new_result_def)
    ultimately show ?thesis
      using sync_catch_result [OF caught] by simp
  next
    case Gap
    then show ?thesis
      using assms(2) body by (auto simp: push_def try_catch_def)
  qed
qed

text \<open>
  As long as the memento takes every record, every result that \<^verbatim>\<open>pull\<close> or \<^verbatim>\<open>push\<close>
  returns has \<^verbatim>\<open>success\<close> true exactly when its list of errors is empty, whether the result
  comes from the \<^verbatim>\<open>catch\<close> block or from the loop with its accumulated errors; conflicts
  play no part.
\<close>

lemma accepted_updates_keep_invariant:
  assumes "\<And>v w. memento_update h v w = Inr ()"
    and "pull n h m target ps = (Ret result, ps') \<or> push n h m target ps = (Ret result, ps')"
  shows "success result = (length (errors result) = 0)"
  using assms(2) pull_result [OF assms(1)] push_result [OF assms(1)] by blast

lemma star_pull:
  "fst (pull 5 star_host \<lparr> github = demo_client \<rparr> Workspace (start rules_world None))
     = Ret star_result"
  by code_simp

lemma token_push:
  "fst (push 5 token_host token_manager Workspace (start token_world None)) = Ret token_result"
  by code_simp

text \<open>
  Claim C5. The program breaks the invariant when the memento rejects the record that
  closes the \<^verbatim>\<open>try\<close> block. \<^verbatim>\<open>success\<close> has been set by then; the \<^verbatim>\<open>catch\<close> block appends the
  error and leaves \<^verbatim>\<open>success\<close> as it is. Here one file is pulled without error, the memento
  rejects the record of the sync and then takes the record of the error: the result
  returned has \<^verbatim>\<open>success\<close> true and one error.
\<close>

theorem success_with_error:
  "fst (pull 5 full_host \<lparr> github = demo_client \<rparr> Workspace (start rules_world None))
     = Ret \<lparr> success = True, filesProcessed = 1, errors = [''Storage quota exceeded''],
             conflicts = [\<lparr> ci_path = ''.cursorrules'', ci_localContent = ''X'',
                            ci_remoteContent = ''Y'', ci_resolution = UseRemote \<rparr>] \<rparr>"
  by code_simp

lemma push_try_no_token:
  assumes "githubToken (getConfig (host_settings h) (host_env h)) = []"
  shows "push_try n h m target s = (Throw (Error token_message), s)"
  using assms by (simp add: push_try_def throw_def token_message_def)

lemma caught:
  assumes "fst s1 = new_result"
  shows "sync_catch h e s1 =
           in_process (updateSyncState h (only_lastError (Some (error_text e))))
             (\<lparr> success = False, filesProcessed = 0, errors = [error_text e], conflicts = [] \<rparr>, snd s1)"
  using assms
  by (simp add: sync_catch_def bind_def update_result_def save_state_def new_result_def
        first_error_def)

text \<open>
  Claim C6. When no token is configured, \<^verbatim>\<open>push\<close> leaves the \<^verbatim>\<open>try\<close> block at once and asks
  the memento to record the error. Without a memento, or when the memento takes the
  record, \<^verbatim>\<open>push\<close> returns a result with exactly one error and no file processed; when the
  memento rejects the record, \<^verbatim>\<open>push\<close> throws and returns no result. In every case it
  sends no request at all (so no write) and leaves the outside world as it was.
\<close>

theorem push_without_token:
  assumes "githubToken (getConfig (host_settings h) (host_env h)) = []"
  shows "(globalState ps = None \<longrightarrow>
            push n h m target ps =
              (Ret \<lparr> success = False, filesProcessed = 0, errors = [token_message], conflicts = [] \<rparr>,
               ps))
       \<and> (globalState ps \<noteq> None \<and>
          memento_update h ((getSyncState (globalState ps))\<lparr>lastError := Some token_message\<rparr>)
            (world ps) = Inr () \<longrightarrow>
            push n h m target ps =
              (Ret \<lparr> success = False, filesProcessed = 0, errors = [token_message], conflicts = [] \<rparr>,
               ps\<lparr>globalState :=
                    Some (Some ((getSyncState (globalState ps))\<lparr>lastError := Some token_message\<rparr>))\<rparr>))
       \<and> (globalState ps \<noteq> None \<and>
          memento_update h ((getSyncState (globalState ps))\<lparr>lastError := Some token_message\<rparr>)
            (world ps) = Inl e \<longrightarrow>
            push n h m target ps = (Throw e, ps))
       \<and> requests (snd (push n h m target ps)) = requests ps
       \<and> world (snd (push n h m target ps)) = world ps"
proof -
  let ?p = "only_lastError (Some token_message)"
  let ?r = "\<lparr> success = False, filesProcessed = 0, errors = [token_message], conflicts = [] \<rparr>"
  obtain x ps1 where saved: "updateSyncState h ?p ps = (x, ps1)"
    by (cases "updateSyncState h ?p ps")
  have handled: "sync_catch h (Error token_message) (new_result, ps) = (x, (?r, ps1))"
    using caught [of "(new_result, ps)" h "Error token_message"] saved
    by (simp add: in_process_def error_text_def)
  have whole: "push n h m target ps =
                 (case x of Ret u \<Rightarrow> Ret ?r | Throw e' \<Rightarrow> Throw e' | Gap \<Rightarrow> Gap, ps1)"
    using handled by (cases x) (simp_all add: push_def try_catch_def push_try_no_token [OF assms])
  have frame: "requests ps1 = requests ps" "world ps1 = world ps"
    using preservesD [OF updateSyncState_requests saved] preservesD [OF updateSyncState_world saved]
    by simp_all
  show ?thesis
    using whole frame saved
      updateSyncState_no_memento [of ps h ?p]
      updateSyncState_taken [of ps h ?p]
      updateSyncState_rejected [of ps h ?p e]
    by (auto simp: spread_only_lastError)
qed

theorem push_without_token_witness:
  "githubToken (getConfig (host_settings rules_host) (host_env rules_host)) = [] \<and>
   githubToken (getConfig (host_settings locked_host) (host_env locked_host)) = [] \<and>
   push 5 rules_host \<lparr> github = demo_client \<rparr> Workspace (start rules_world (Some earlier_state))
     = (Ret \<lparr> success = False, filesProcessed = 0, errors = [token_message], conflicts = [] \<rparr>,
        start rules_world (Some (earlier_state\<lparr> lastError := Some token_message \<rparr>))) \<and>
   push 5 rules_host \<lparr> github = demo_client \<rparr> Workspace
       \<lparr> world = rules_world, requests = [], globalState = None \<rparr>
     = (Ret \<lparr> success = False, filesProcessed = 0, errors = [token_message], conflicts = [] \<rparr>,
        \<lparr> world = rules_world, requests = [], globalState = None \<rparr>) \<and>
   push 5 locked_host \<lparr> github = demo_client \<rparr> Workspace (start rules_world (Some earlier_state))
     = (Throw (Error ''Storage is locked''), start rules_world (Some earlier_state))"
proof -
  have none: "githubToken (getConfig (host_settings rules_host) (host_env rules_host)) = []"
    by code_simp
  have locked: "githubToken (getConfig (host_settings locked_host) (host_env locked_host)) = []"
    by code_simp
  have takes: "memento_update rules_host v w = Inr ()" for v w
    by (simp add: rules_host_def memory_host_def)
  have rejects: "memento_update locked_host v w = Inl (Error ''Storage is locked'')" for v w
    by (simp add: locked_host_def)
  have merged: "getSyncState (Some (Some earlier_state)) = earlier_state"
    by (simp add: getSyncState_def config_get_def)
  show ?thesis
    using none locked takes rejects merged
      push_without_token [OF none, where ps = "start rules_world (Some earlier_state)" and n = 5
        and m = "\<lparr> github = demo_client \<rparr>" and target = Workspace]
      push_without_token [OF none,
        where ps = "\<lparr> world = rules_world, requests = [], globalState = None \<rparr>" and n = 5
        and m = "\<lparr> github = demo_client \<rparr>" and target = Workspace]
      push_without_token [OF locked, where ps = "start rules_world (Some earlier_state)"
        and e = "Error ''Storage is locked''" and n = 5
        and m = "\<lparr> github = demo_client \<rparr>" and target = Workspace]
    by (simp add: start_def)
qed

lemma pushFile_without_token:
  "token c = None \<Longrightarrow>
     pushFile h c path content message ps
       = (Throw (Error ''GitHub token required for push operations''), ps)"
  by (simp add: pushFile_def throw_def)

lemma fetch_result:
  "net_fetch h req (world ps) = (Inr response, w') \<Longrightarrow>
     fetch h req ps = (Ret response, ps\<lparr>requests := requests ps @ [req], world := w'\<rparr>)"
  by (simp add: fetch_def host_call_def)

text \<open>
  Claim C7. When the listing request is answered with status 404, \<^verbatim>\<open>listDirectory\<close>
  returns the empty list; with any other status outside 200..299 it throws an error
  whose message carries the status in decimal; and \<^verbatim>\<open>fetchAllFiles\<close>, whose first listing
  is that of the empty path, then returns the empty map.
\<close>

theorem listDirectory_not_found:
  assumes "net_fetch h (listDirectory_request c path) (world ps) = (Inr response, w')"
  shows "(status response = 404 \<longrightarrow>
            listDirectory h c path ps
              = (Ret [], ps\<lparr>requests := requests ps @ [listDirectory_request c path], world := w'\<rparr>))
       \<and> (\<not> response_ok response \<and> status response \<noteq> 404 \<longrightarrow>
            listDirectory h c path ps
              = (Throw (Error (''GitHub API error: '' @ decimal (status response) @ '' ''
                               @ statusText response)),
                 ps\<lparr>requests := requests ps @ [listDirectory_request c path], world := w'\<rparr>))
       \<and> (status response = 404 \<and> path = [] \<longrightarrow>
            fetchAllFiles (Suc n) h c patterns ps
              = (Ret [], ps\<lparr>requests := requests ps @ [listDirectory_request c []], world := w'\<rparr>))"
  using fetch_result [OF assms]
  by (auto simp: listDirectory_def bind_def ret_def throw_def response_ok_def fetchAllFiles_def)

theorem listDirectory_not_found_witness:
  "net_fetch empty_host (listDirectory_request demo_client []) (world (start [] None))
     = (Inr not_found, []) \<and>
   net_fetch broken_host (listDirectory_request demo_client []) (world (start [] None))
     = (Inr broken_response, []) \<and>
   fst (listDirectory empty_host demo_client [] (start [] None)) = Ret [] \<and>
   fst (fetchAllFiles 1 empty_host demo_client [''**''] (start [] None)) = Ret [] \<and>
   fst (listDirectory broken_host demo_client [] (start [] None))
     = Throw (Error ''GitHub API error: 500 Internal Server Error'')"
proof -
  have a: "net_fetch empty_host (listDirectory_request demo_client []) (world (start [] None))
             = (Inr not_found, [])"
    by code_simp
  have b: "net_fetch broken_host (listDirectory_request demo_client []) (world (start [] None))
             = (Inr broken_response, [])"
    by code_simp
  have c: "status not_found = 404" "\<not> response_ok broken_response" "status broken_response \<noteq> 404"
    "''GitHub API error: '' @ decimal (status broken_response) @ '' '' @ statusText broken_response
       = ''GitHub API error: 500 Internal Server Error''"
    by code_simp+
  show ?thesis
    using a b c listDirectory_not_found [OF a, of 0 "[''**'']"] listDirectory_not_found [OF b, of 0 "[]"]
    by simp
qed

section \<open>What a failed start leaves behind\<close>



















lemma push_setup_no_token:
  "githubToken (getConfig (host_settings h) (host_env h)) = [] \<Longrightarrow>
     push_setup n h m target s = (Throw (Error token_message), s)"
  by (simp add: push_setup_def throw_def token_message_def)

lemma push_setup_no_workspace:
  "githubToken (getConfig (host_settings h) (host_env h)) \<noteq> [] \<Longrightarrow> workspaceFolder h = None \<Longrightarrow>
     push_setup n h m Workspace s = (Throw (Error ''No workspace folder open''), s)"
  by (simp add: push_setup_def Let_def getTargetPath_def pure_def bind_def)

lemma push_setup_no_directory:
  "githubToken (getConfig (host_settings h) (host_env h)) \<noteq> [] \<Longrightarrow>
   getTargetPath h target = Ret targetPath \<Longrightarrow>
   \<not> fs_existsSync h targetPath (world (snd s)) \<Longrightarrow>
     push_setup n h m target s
       = (Throw (Error (''Target directory does not exist: '' @ targetPath)), s)"
  by (simp add: push_setup_def Let_def pure_def bind_def existsSync_def throw_def)



end
